theory Spec2Isabelle
  imports Complex_Main "HOL-Library.Multiset"
begin

section \<open>Numbers, diagnostics and progress events\<close>

text \<open>
  A C++ \<^verbatim>\<open>double\<close> is either finite or one of the three non-finite values. Finite
  doubles are identified with the real numbers they denote: the comparisons and the
  \<^verbatim>\<open>std::isfinite\<close> guards of the source are modelled exactly (a NaN compares false with
  everything). Arithmetic on finite doubles is taken as exact, except for the halving of
  the extents of a centred box, whose rounding is modelled: half of the least positive
  double is zero.
\<close>

datatype double = Finite real | PosInf | NegInf | NaN

fun isfinite :: "double \<Rightarrow> bool" where
  "isfinite (Finite _) = True"
| "isfinite _ = False"

fun d_less :: "double \<Rightarrow> double \<Rightarrow> bool" where
  "d_less NaN _ = False"
| "d_less _ NaN = False"
| "d_less (Finite a) (Finite b) = (a < b)"
| "d_less NegInf NegInf = False"
| "d_less NegInf _ = True"
| "d_less _ NegInf = False"
| "d_less PosInf _ = False"
| "d_less _ PosInf = True"

fun d_le :: "double \<Rightarrow> double \<Rightarrow> bool" where
  "d_le NaN _ = False"
| "d_le _ NaN = False"
| "d_le (Finite a) (Finite b) = (a \<le> b)"
| "d_le NegInf _ = True"
| "d_le _ PosInf = True"
| "d_le PosInf _ = False"
| "d_le _ NegInf = False"

datatype OpenSCADOperator = UNION | INTERSECTION | DIFFERENCE | MINKOWSKI

datatype message_group = Error | Warning | Deprecated

text \<open>
  A \<^verbatim>\<open>LOG(group, format, args...)\<close> call is recorded with its format string and its
  arguments; \<^verbatim>\<open>progress_tick()\<close> and \<^verbatim>\<open>node->progress_report()\<close> are recorded as events of
  the same trace, the latter with the node's progress mark.
\<close>

datatype log_arg = ArgS string | ArgI int | ArgD double | ArgOp OpenSCADOperator

datatype event = LOG message_group string "log_arg list" | progress_tick | progress_report int

section \<open>The exact solid algebra (external)\<close>

text \<open>
  The two exception classes the combinator distinguishes: \<^verbatim>\<open>CGAL::Failure_exception\<close> and
  any other \<^verbatim>\<open>std::exception\<close>, each with the text of its \<^verbatim>\<open>what()\<close>.
\<close>

datatype failure = Failure_exception string | std_exception string

text \<open>
  The Nef polyhedron class and the conversion from a geometry are not part of the
  combinator; they are parameters. The conversion and the queries \<^verbatim>\<open>isEmpty\<close> and
  \<^verbatim>\<open>number_of_facets\<close> are taken to return. \<^verbatim>\<open>operator+\<close> either returns the union or throws. The
  mutating operators \<^verbatim>\<open>*=\<close>, \<^verbatim>\<open>-=\<close> and \<^verbatim>\<open>minkowski\<close> either return the new value of the
  object they are applied to, or throw, leaving that object in the state given with the
  exception.
\<close>

record ('g, 'n) algebra =
  getNefPolyhedronFromGeometry :: "'g \<Rightarrow> 'n option"
  isEmpty :: "'n \<Rightarrow> bool"
  number_of_facets :: "'n \<Rightarrow> nat"
  nef_plus :: "'n \<Rightarrow> 'n \<Rightarrow> failure + 'n"
  nef_times_assign :: "'n \<Rightarrow> 'n \<Rightarrow> (failure \<times> 'n) + 'n"
  nef_minus_assign :: "'n \<Rightarrow> 'n \<Rightarrow> (failure \<times> 'n) + 'n"
  nef_minkowski :: "'n \<Rightarrow> 'n \<Rightarrow> (failure \<times> 'n) + 'n"

record node =
  progress_mark :: int

text \<open>An item of \<^verbatim>\<open>Geometry::Geometries\<close>: an optional node and a geometry.\<close>

type_synonym 'g child = "node option \<times> 'g"

section \<open>applyUnion3D\<close>

type_synonym 'n QueueConstItem = "'n \<times> int"

definition QueueItemGreater ::
  "('g, 'n) algebra \<Rightarrow> 'n QueueConstItem \<Rightarrow> 'n QueueConstItem \<Rightarrow> bool" where
  "QueueItemGreater alg lhs rhs =
     (let l = number_of_facets alg (fst lhs);
          r = number_of_facets alg (fst rhs)
      in l > r \<or> (l = r \<and> snd lhs > snd rhs))"

text \<open>
  \<^verbatim>\<open>std::priority_queue<QueueConstItem, std::vector<...>, QueueItemGreater>\<close> is modelled by
  the list of its elements in insertion order. \<^verbatim>\<open>top()\<close> is an element that the
  comparator puts before no other element; among elements the comparator does not
  distinguish (same facet count and same mark) the model takes the one inserted first.
\<close>

definition q_emplace :: "'n QueueConstItem \<Rightarrow> 'n QueueConstItem list \<Rightarrow> 'n QueueConstItem list" where
  "q_emplace x q = q @ [x]"

fun q_top_from ::
  "('g, 'n) algebra \<Rightarrow> 'n QueueConstItem \<Rightarrow> 'n QueueConstItem list \<Rightarrow> 'n QueueConstItem" where
  "q_top_from alg best [] = best"
| "q_top_from alg best (y # ys) =
     q_top_from alg (if QueueItemGreater alg best y then y else best) ys"

fun q_top :: "('g, 'n) algebra \<Rightarrow> 'n QueueConstItem list \<Rightarrow> 'n QueueConstItem" where
  "q_top alg (x # xs) = q_top_from alg x xs"

definition q_pop :: "('g, 'n) algebra \<Rightarrow> 'n QueueConstItem list \<Rightarrow> 'n QueueConstItem list" where
  "q_pop alg q = remove1 (q_top alg q) q"

text \<open>The first loop of \<^verbatim>\<open>applyUnion3D\<close>: "sort children by fewest faces".\<close>

fun fill_queue ::
  "('g, 'n) algebra \<Rightarrow> 'g child list \<Rightarrow> 'n QueueConstItem list \<Rightarrow> 'n QueueConstItem list" where
  "fill_queue alg [] q = q"
| "fill_queue alg (it # rest) q =
     (case getNefPolyhedronFromGeometry alg (snd it) of
        None \<Rightarrow> fill_queue alg rest q
      | Some curChild \<Rightarrow>
          if \<not> isEmpty alg curChild then
            (let node_mark = (case fst it of None \<Rightarrow> - 1 | Some nd \<Rightarrow> progress_mark nd)
             in fill_queue alg rest (q_emplace (curChild, node_mark) q))
          else fill_queue alg rest q)"


lemma q_top_from_mem: "q_top_from alg best ys \<in> set (best # ys)"
  by (induction ys arbitrary: best) auto

lemma q_top_mem: "q \<noteq> [] \<Longrightarrow> q_top alg q \<in> set q"
  using q_top_from_mem [of alg "hd q" "tl q"] by (cases q) auto

lemma length_q_pop: "q \<noteq> [] \<Longrightarrow> length (q_pop alg q) = length q - 1"
  by (simp add: q_pop_def length_remove1 q_top_mem)

text \<open>
  The merge loop \<^verbatim>\<open>while (q.size() > 1)\<close>. The result is the queue left by the loop, or
  the exception thrown by \<^verbatim>\<open>operator+\<close>, together with the events so far.
\<close>

function merge_loop ::
  "('g, 'n) algebra \<Rightarrow> 'n QueueConstItem list \<Rightarrow> event list
     \<Rightarrow> (failure + 'n QueueConstItem list) \<times> event list" where
  "merge_loop alg q ev =
     (if length q > 1 then
        (let p1 = q_top alg q; q1 = q_pop alg q;
             p2 = q_top alg q1; q2 = q_pop alg q1
         in case nef_plus alg (fst p1) (fst p2) of
              Inl e \<Rightarrow> (Inl e, ev)
            | Inr u \<Rightarrow> merge_loop alg (q_emplace (u, - 1) q2) (ev @ [progress_tick]))
      else (Inr q, ev))"
  by pat_completeness auto
termination
proof (relation "measure (\<lambda>(alg, q, ev). length q)")
  show "wf (measure (\<lambda>(alg, q, ev). length q))" by simp
next
  fix alg :: "('g, 'n) algebra" and q :: "'n QueueConstItem list" and ev :: "event list"
    and p1 q1 p2 q2 u
  assume len: "1 < length q" and q1: "q1 = q_pop alg q" and q2: "q2 = q_pop alg q1"
  from len have "q \<noteq> []" by auto
  then have l1: "length q1 = length q - 1" using q1 by (simp add: length_q_pop)
  with len have "q1 \<noteq> []" by auto
  then have "length q2 = length q1 - 1" using q2 by (simp add: length_q_pop)
  with l1 len have "length (q_emplace (u, - 1) q2) < length q"
    by (simp add: q_emplace_def)
  then show "((alg, q_emplace (u, - 1) q2, ev @ [progress_tick]), (alg, q, ev))
      \<in> measure (\<lambda>(alg, q, ev). length q)"
    by simp
qed

declare merge_loop.simps [simp del]

text \<open>
  \<^verbatim>\<open>applyUnion3D\<close>. \<^verbatim>\<open>Inr (r, evs)\<close>: the function returns the pointer \<open>r\<close> (\<open>None\<close> is
  \<^verbatim>\<open>nullptr\<close>) after the events \<open>evs\<close>. \<^verbatim>\<open>Inl (e, evs)\<close>: the exception \<open>e\<close> leaves the function;
  only \<^verbatim>\<open>CGAL::Failure_exception\<close> is caught.
\<close>

definition applyUnion3D ::
  "('g, 'n) algebra \<Rightarrow> 'g child list \<Rightarrow> (failure \<times> event list) + ('n option \<times> event list)" where
  "applyUnion3D alg children =
     (let q = fill_queue alg children []
      in case merge_loop alg q [progress_tick] of
           (Inr q', ev) \<Rightarrow>
             if length q' = 1 then Inr (Some (fst (q_top alg q')), ev) else Inr (None, ev)
         | (Inl (Failure_exception w), ev) \<Rightarrow>
             Inr (None, ev @ [LOG Error ''CGAL error in CGALUtils::applyUnion3D: %1$s'' [ArgS w]])
         | (Inl (std_exception w), ev) \<Rightarrow> Inl (std_exception w, ev))"

section \<open>applyOperator3D\<close>

record 'n fold_state =
  N :: "'n option"
  foundFirst :: bool
  trace :: "event list"

text \<open>The tests \<^verbatim>\<open>!chN || chN->isEmpty()\<close> and \<^verbatim>\<open>!N || N->isEmpty()\<close>.\<close>

definition null_or_empty :: "('g, 'n) algebra \<Rightarrow> 'n option \<Rightarrow> bool" where
  "null_or_empty alg p = (case p of None \<Rightarrow> True | Some n \<Rightarrow> isEmpty alg n)"

definition opstr :: "OpenSCADOperator \<Rightarrow> string" where
  "opstr op =
     (if op = INTERSECTION then ''intersection''
      else if op = DIFFERENCE then ''difference''
      else if op = UNION then ''union'' else ''UNKNOWN'')"

text \<open>
  The \<^verbatim>\<open>switch (op)\<close> on a non-empty accumulator \<open>n\<close> and a non-empty child \<open>chN\<close>:
  \<open>Inr n'\<close> is the accumulator after the operator, \<open>Inl (e, n')\<close> the exception thrown and
  the accumulator it leaves. \<^verbatim>\<open>UNION\<close> is excluded by the assertion at the head of the
  function; with assertions compiled out it reaches the \<^verbatim>\<open>default\<close> branch.
\<close>

definition apply_switch ::
  "('g, 'n) algebra \<Rightarrow> OpenSCADOperator \<Rightarrow> 'n \<Rightarrow> 'n \<Rightarrow> event list
     \<Rightarrow> (failure \<times> 'n) + ('n \<times> event list)" where
  "apply_switch alg op n chN ev =
     (case op of
        INTERSECTION \<Rightarrow> map_sum id (\<lambda>n'. (n', ev)) (nef_times_assign alg n chN)
      | DIFFERENCE \<Rightarrow> map_sum id (\<lambda>n'. (n', ev)) (nef_minus_assign alg n chN)
      | MINKOWSKI \<Rightarrow> map_sum id (\<lambda>n'. (n', ev)) (nef_minkowski alg n chN)
      | UNION \<Rightarrow> Inr (n, ev @ [LOG Error ''Unsupported CGAL operator: %1$d'' [ArgOp op]]))"

text \<open>
  One iteration of \<^verbatim>\<open>for (const auto& item : children)\<close>. \<open>Inr st'\<close>: the iteration ends
  (by \<^verbatim>\<open>continue\<close> or at the end of the body) in state \<open>st'\<close>; \<open>Inl (e, st')\<close>: it throws \<open>e\<close>
  in state \<open>st'\<close>.
\<close>

definition fold_step ::
  "('g, 'n) algebra \<Rightarrow> OpenSCADOperator \<Rightarrow> 'g child \<Rightarrow> 'n fold_state
     \<Rightarrow> (failure \<times> 'n fold_state) + 'n fold_state" where
  "fold_step alg op item st =
     (let chN = getNefPolyhedronFromGeometry alg (snd item) in
      if \<not> foundFirst st then Inr (st\<lparr>N := chN, foundFirst := True\<rparr>)
      else if null_or_empty alg chN then
        (if op = INTERSECTION then Inr (st\<lparr>N := None\<rparr>) else Inr st)
      else if null_or_empty alg (N st) then Inr st
      else
        (case apply_switch alg op (the (N st)) (the chN) (trace st) of
           Inl (e, n') \<Rightarrow> Inl (e, st\<lparr>N := Some n'\<rparr>)
         | Inr (n', ev) \<Rightarrow>
             Inr (st\<lparr>N := Some n',
                    trace := (case fst item of None \<Rightarrow> ev
                              | Some nd \<Rightarrow> ev @ [progress_report (progress_mark nd)])\<rparr>)))"

fun fold_loop ::
  "('g, 'n) algebra \<Rightarrow> OpenSCADOperator \<Rightarrow> 'g child list \<Rightarrow> 'n fold_state
     \<Rightarrow> (failure \<times> 'n fold_state) + 'n fold_state" where
  "fold_loop alg op [] st = Inr st"
| "fold_loop alg op (item # items) st =
     (case fold_step alg op item st of
        Inl x \<Rightarrow> Inl x
      | Inr st' \<Rightarrow> fold_loop alg op items st')"

text \<open>
  \<^verbatim>\<open>applyOperator3D\<close> returns \<^verbatim>\<open>shared_ptr<Geometry>(N)\<close> after the loop and after either
  \<^verbatim>\<open>catch\<close> clause.
\<close>

definition applyOperator3D ::
  "('g, 'n) algebra \<Rightarrow> 'g child list \<Rightarrow> OpenSCADOperator \<Rightarrow> 'n option \<times> event list" where
  "applyOperator3D alg children op =
     (case fold_loop alg op children \<lparr>N = None, foundFirst = False, trace = []\<rparr> of
        Inr st \<Rightarrow> (N st, trace st)
      | Inl (Failure_exception w, st) \<Rightarrow>
          (N st, trace st @
             [LOG Error ''CGAL error in CGALUtils::applyBinaryOperator %1$s: %2$s''
                [ArgS (opstr op), ArgS w]])
      | Inl (std_exception w, st) \<Rightarrow>
          (N st, trace st @
             [LOG Error ''exception in CGALUtils::applyBinaryOperator %1$s: %2$s''
                [ArgS (opstr op), ArgS w]]))"

text \<open>
  A small instance of the algebra for evaluating the combinator on concrete requests:
  a solid is represented by its facet count, a geometry by an optional solid, the empty
  solid is 0. Union adds, intersection takes the minimum, difference and Minkowski sum
  subtract and add; intersecting with or subtracting the solid 13 fails with a
  \<^verbatim>\<open>CGAL::Failure_exception\<close> that leaves the left operand as it was.
\<close>

definition facet_algebra :: "(nat option, nat) algebra" where
  "facet_algebra =
     \<lparr>getNefPolyhedronFromGeometry = (\<lambda>g. g),
      isEmpty = (\<lambda>n. n = 0),
      number_of_facets = (\<lambda>n. n),
      nef_plus = (\<lambda>a b. Inr (a + b)),
      nef_times_assign = (\<lambda>a b. if b = 13 then Inl (Failure_exception ''assertion violation'', a)
                                  else Inr (min a b)),
      nef_minus_assign = (\<lambda>a b. if b = 13 then Inl (Failure_exception ''assertion violation'', a)
                                  else Inr (a - b)),
      nef_minkowski = (\<lambda>a b. Inr (a + b))\<rparr>"

section \<open>Meshes and the mesh builder\<close>

type_synonym Vector2d = "real \<times> real"

type_synonym Vector3d = "real \<times> real \<times> real"

type_synonym IndexedFace = "nat list"

text \<open>The value of a double that the guards of the source have found finite.\<close>

fun real_of :: "double \<Rightarrow> real" where
  "real_of (Finite r) = r"
| "real_of _ = 0"

text \<open>A \<^verbatim>\<open>PolySet\<close>: its vertices and its faces, each face a list of vertex indices.\<close>

record PolySet =
  vertices :: "Vector3d list"
  indices :: "IndexedFace list"

text \<open>\<^verbatim>\<open>new PolySet(3, true)\<close>: the mesh without vertices and faces.\<close>

definition empty_PolySet :: PolySet where
  "empty_PolySet = \<lparr>vertices = [], indices = []\<rparr>"

text \<open>
  Modelled from the spec: the class \<^verbatim>\<open>PolySetBuilder\<close> (its files are not among the
  sources). The builder accumulates the vertices, without duplicates, and the faces.
\<close>

record PolySetBuilder =
  allVertices :: "Vector3d list"
  b_indices :: "IndexedFace list"

text \<open>Modelled from the spec: the constructor of \<^verbatim>\<open>PolySetBuilder\<close>, an empty builder.\<close>

definition new_PolySetBuilder :: PolySetBuilder where
  "new_PolySetBuilder = \<lparr>allVertices = [], b_indices = []\<rparr>"

text \<open>
  Modelled from the spec: \<^verbatim>\<open>PolySetBuilder::vertexIndex\<close> "returns a stable index for a point,
  reusing an existing index if an equal point was already inserted, else allocating a
  new one".
\<close>

definition vertexIndex :: "Vector3d \<Rightarrow> PolySetBuilder \<Rightarrow> nat \<times> PolySetBuilder" where
  "vertexIndex pt b =
     (if pt \<in> set (allVertices b)
      then (length (takeWhile (\<lambda>v. v \<noteq> pt) (allVertices b)), b)
      else (length (allVertices b), b\<lparr>allVertices := allVertices b @ [pt]\<rparr>))"


text \<open>
  Modelled from the spec: \<^verbatim>\<open>PolySetBuilder::append_poly(const std::vector<int>&)\<close> adds one
  face from a fixed list of vertex indices.
\<close>

definition append_poly :: "IndexedFace \<Rightarrow> PolySetBuilder \<Rightarrow> PolySetBuilder" where
  "append_poly inds b = b\<lparr>b_indices := b_indices b @ [inds]\<rparr>"



text \<open>Modelled from the spec: \<^verbatim>\<open>PolySetBuilder::result\<close> "finalizes and returns the Mesh".\<close>

definition result :: "PolySetBuilder \<Rightarrow> PolySet" where
  "result b = \<lparr>vertices = allVertices b, indices = b_indices b\<rparr>"



section \<open>set_fragments\<close>

definition F_MINIMUM :: double where
  "F_MINIMUM = Finite (1 / 100)"

text \<open>
  The arguments are the values of \<^verbatim>\<open>parameters["$fn"].toDouble()\<close>,
  \<^verbatim>\<open>parameters["$fs"].toDouble()\<close> and \<^verbatim>\<open>parameters["$fa"].toDouble()\<close>; the result gives the
  reference parameters \<open>fn\<close>, \<open>fs\<close>, \<open>fa\<close> after the call, and the messages logged.
\<close>

definition set_fragments ::
  "double \<Rightarrow> double \<Rightarrow> double \<Rightarrow> (double \<times> double \<times> double) \<times> event list" where
  "set_fragments p_fn p_fs p_fa =
     (let fn = p_fn; fs = p_fs; fa = p_fa;
          (fs, ev) = (if d_less fs F_MINIMUM
                      then (F_MINIMUM,
                            [LOG Warning ''$fs too small - clamping to %1$f'' [ArgD F_MINIMUM]])
                      else (fs, []));
          (fa, ev) = (if d_less fa F_MINIMUM
                      then (F_MINIMUM,
                            ev @ [LOG Warning ''$fa too small - clamping to %1$f'' [ArgD F_MINIMUM]])
                      else (fa, ev))
      in ((fn, fs, fa), ev))"

text \<open>The two warnings of \<^verbatim>\<open>set_fragments\<close>.\<close>

definition fs_warning :: event where
  "fs_warning = LOG Warning ''$fs too small - clamping to %1$f'' [ArgD F_MINIMUM]"

definition fa_warning :: event where
  "fa_warning = LOG Warning ''$fa too small - clamping to %1$f'' [ArgD F_MINIMUM]"

section \<open>CubeNode::createGeometry\<close>

record CubeNode =
  cube_x :: double
  cube_y :: double
  cube_z :: double
  cube_center :: bool

text \<open>
  The finite doubles are integer multiples of the least positive double, \<^verbatim>\<open>2^-1074\<close>. The
  division of a double by 2 is exact on an even multiple: the result is a double again.
  Half of an odd multiple \<open>k\<close> lies midway between two doubles, and the division rounds it
  to the one that is an even multiple (round to nearest, ties to even); this is
  \<open>half_even k\<close>. In particular half of the least positive double is zero.
\<close>

definition denorm_min :: real where
  "denorm_min = 1 / 2 ^ 1074"

definition half_even :: "int \<Rightarrow> int" where
  "half_even k = (if even (k div 2) then k div 2 else k div 2 + 1)"

text \<open>The double \<^verbatim>\<open>x / 2\<close>, for a finite double \<open>x\<close>.\<close>

definition d_div2 :: "real \<Rightarrow> real" where
  "d_div2 x =
     (let k = x / denorm_min
      in if k = of_int \<lfloor>k\<rfloor> \<and> odd \<lfloor>k\<rfloor> then of_int (half_even \<lfloor>k\<rfloor>) * denorm_min
         else x / 2)"

text \<open>The loop \<^verbatim>\<open>for(int i=0;i<8;i++) corner[i]=builder.vertexIndex(...)\<close>.\<close>

fun corner_loop ::
  "real \<Rightarrow> real \<Rightarrow> real \<Rightarrow> real \<Rightarrow> real \<Rightarrow> real \<Rightarrow> nat list
     \<Rightarrow> nat list \<times> PolySetBuilder \<Rightarrow> nat list \<times> PolySetBuilder" where
  "corner_loop x1 x2 y1 y2 z1 z2 [] cb = cb"
| "corner_loop x1 x2 y1 y2 z1 z2 (i # rest) (corner, builder) =
     (let (k, builder') =
            vertexIndex (if bit i 0 then x2 else x1,
                         if bit i 1 then y2 else y1,
                         if bit i 2 then z2 else z1) builder
      in corner_loop x1 x2 y1 y2 z1 z2 rest (corner @ [k], builder'))"

definition CubeNode_createGeometry :: "CubeNode \<Rightarrow> PolySet" where
  "CubeNode_createGeometry nd =
     (if d_le (cube_x nd) (Finite 0) \<or> \<not> isfinite (cube_x nd)
         \<or> d_le (cube_y nd) (Finite 0) \<or> \<not> isfinite (cube_y nd)
         \<or> d_le (cube_z nd) (Finite 0) \<or> \<not> isfinite (cube_z nd)
      then empty_PolySet
      else
        (let x = real_of (cube_x nd); y = real_of (cube_y nd); z = real_of (cube_z nd);
             (x1, x2, y1, y2, z1, z2) =
               (if cube_center nd
                then (d_div2 (- x), d_div2 x, d_div2 (- y), d_div2 y, d_div2 (- z), d_div2 z)
                else (0, x, 0, y, 0, z));
             (corner, builder) =
               corner_loop x1 x2 y1 y2 z1 z2 [0..<8] ([], new_PolySetBuilder);
             builder = append_poly [corner ! 4, corner ! 5, corner ! 7, corner ! 6] builder;
             builder = append_poly [corner ! 2, corner ! 3, corner ! 1, corner ! 0] builder;
             builder = append_poly [corner ! 0, corner ! 1, corner ! 5, corner ! 4] builder;
             builder = append_poly [corner ! 1, corner ! 3, corner ! 7, corner ! 5] builder;
             builder = append_poly [corner ! 3, corner ! 2, corner ! 6, corner ! 7] builder;
             builder = append_poly [corner ! 2, corner ! 0, corner ! 4, corner ! 6] builder
         in result builder))"

text \<open>
  The edges of a face are the pairs of cyclically consecutive indices; an edge is shared
  by the faces that have it in either direction.
\<close>

definition face_edges :: "IndexedFace \<Rightarrow> (nat \<times> nat) list" where
  "face_edges f = zip f (rotate1 f)"

definition has_edge :: "IndexedFace \<Rightarrow> nat \<times> nat \<Rightarrow> bool" where
  "has_edge f e = (e \<in> set (face_edges f) \<or> (snd e, fst e) \<in> set (face_edges f))"

definition edge_count :: "IndexedFace list \<Rightarrow> nat \<times> nat \<Rightarrow> nat" where
  "edge_count fs e = length (filter (\<lambda>f. has_edge f e) fs)"

definition closed_manifold :: "IndexedFace list \<Rightarrow> bool" where
  "closed_manifold fs = list_all (\<lambda>f. list_all (\<lambda>e. edge_count fs e = 2) (face_edges f)) fs"

section \<open>builtin_polyhedron and builtin_polygon\<close>

text \<open>
  The class \<^verbatim>\<open>Value\<close> of the evaluator is not among the sources. A value is an element
  of a type \<open>'v\<close>, with the member functions the parsers call as parameters: \<open>getVec2\<close>
  and \<open>getVec3\<close> give the coordinates when the conversion succeeds (\<open>getVec3\<close> stands for
  the call with the default \<^verbatim>\<open>0.0\<close> for a missing third coordinate), \<open>to_size_t\<close> and
  \<open>to_int\<close> are the conversions \<^verbatim>\<open>(size_t)\<close> and \<^verbatim>\<open>(int)\<close> of a double.
\<close>

datatype Value_Type = UNDEFINED | BOOL | NUMBER | STRING | VECTOR | OTHER_TYPE

record 'v Value_ops =
  type_of :: "'v \<Rightarrow> Value_Type"
  toVector :: "'v \<Rightarrow> 'v list"
  toDouble :: "'v \<Rightarrow> double"
  getVec2 :: "'v \<Rightarrow> (double \<times> double) option"
  getVec3 :: "'v \<Rightarrow> (double \<times> double \<times> double) option"
  toEchoStringNoThrow :: "'v \<Rightarrow> string"
  to_size_t :: "double \<Rightarrow> nat"
  to_int :: "double \<Rightarrow> int"

record PolyhedronNode =
  ph_points :: "Vector3d list"
  ph_faces :: "IndexedFace list"
  ph_convexity :: int

record PolygonNode =
  pg_points :: "Vector2d list"
  pg_paths :: "nat list list"
  pg_convexity :: int

text \<open>
  The nodes as their constructors leave them; the initial convexity is a field
  initialiser of the class declarations, which are not among the sources, and is taken
  as 1.
\<close>

definition new_PolyhedronNode :: PolyhedronNode where
  "new_PolyhedronNode = \<lparr>ph_points = [], ph_faces = [], ph_convexity = 1\<rparr>"

definition new_PolygonNode :: PolygonNode where
  "new_PolygonNode = \<lparr>pg_points = [], pg_paths = [], pg_convexity = 1\<rparr>"

text \<open>The loop over \<^verbatim>\<open>parameters["points"].toVector()\<close> of \<^verbatim>\<open>builtin_polyhedron\<close>.\<close>

fun polyhedron_points ::
  "'v Value_ops \<Rightarrow> 'v list \<Rightarrow> Vector3d list \<times> event list \<Rightarrow> Vector3d list \<times> event list" where
  "polyhedron_points V [] st = st"
| "polyhedron_points V (pointValue # rest) (points, ev) =
     (let failed =
            (points @ [(0, 0, 0)],
             ev @ [LOG Error ''Unable to convert points[%1$d] = %2$s to a vec3 of numbers''
                     [ArgI (int (length points)), ArgS (toEchoStringNoThrow V pointValue)]])
      in case getVec3 V pointValue of
           None \<Rightarrow> polyhedron_points V rest failed
         | Some (p0, p1, p2) \<Rightarrow>
             if \<not> isfinite p0 \<or> \<not> isfinite p1 \<or> \<not> isfinite p2
             then polyhedron_points V rest failed
             else polyhedron_points V rest
                    (points @ [(real_of p0, real_of p1, real_of p2)], ev))"

text \<open>The loop over one face, \<^verbatim>\<open>for (const Value& pointIndexValue : faceValue.toVector())\<close>.\<close>

fun face_indices ::
  "'v Value_ops \<Rightarrow> nat \<Rightarrow> nat \<Rightarrow> 'v list \<Rightarrow> nat \<Rightarrow> IndexedFace \<times> event list
     \<Rightarrow> IndexedFace \<times> event list" where
  "face_indices V npoints faceIndex [] pointIndexIndex st = st"
| "face_indices V npoints faceIndex (pointIndexValue # rest) pointIndexIndex (face, ev) =
     (if type_of V pointIndexValue \<noteq> NUMBER then
        face_indices V npoints faceIndex rest (pointIndexIndex + 1)
          (face, ev @ [LOG Error ''Unable to convert faces[%1$d][%2$d] = %3$s to a number''
                         [ArgI (int faceIndex), ArgI (int pointIndexIndex),
                          ArgS (toEchoStringNoThrow V pointIndexValue)]])
      else
        (let pointIndex = to_size_t V (toDouble V pointIndexValue) in
         if pointIndex < npoints then
           face_indices V npoints faceIndex rest (pointIndexIndex + 1) (face @ [pointIndex], ev)
         else
           face_indices V npoints faceIndex rest (pointIndexIndex + 1)
             (face, ev @ [LOG Warning ''Point index %1$d is out of bounds (from faces[%2$d][%3$d])''
                            [ArgI (int pointIndex), ArgI (int faceIndex),
                             ArgI (int pointIndexIndex)]])))"

text \<open>The loop \<^verbatim>\<open>for (const Value& faceValue : faces->toVector())\<close>.\<close>

fun polyhedron_faces ::
  "'v Value_ops \<Rightarrow> nat \<Rightarrow> 'v list \<Rightarrow> nat \<Rightarrow> IndexedFace list \<times> event list
     \<Rightarrow> IndexedFace list \<times> event list" where
  "polyhedron_faces V npoints [] faceIndex st = st"
| "polyhedron_faces V npoints (faceValue # rest) faceIndex (faces, ev) =
     (if type_of V faceValue \<noteq> VECTOR then
        polyhedron_faces V npoints rest (faceIndex + 1)
          (faces, ev @ [LOG Error ''Unable to convert faces[%1$d] = %2$s to a vector of numbers''
                          [ArgI (int faceIndex), ArgS (toEchoStringNoThrow V faceValue)]])
      else
        (let (face, ev') = face_indices V npoints faceIndex (toVector V faceValue) 0 ([], ev)
         in polyhedron_faces V npoints rest (faceIndex + 1)
              (if length face \<ge> 3 then faces @ [face] else faces, ev')))"

text \<open>
  \<^verbatim>\<open>builtin_polyhedron\<close>: \<open>no_children\<close> is \<^verbatim>\<open>children.empty()\<close>, \<open>parameters\<close> the parsed
  parameters by name. The result is the node returned and the messages logged.
\<close>

definition builtin_polyhedron ::
  "'v Value_ops \<Rightarrow> bool \<Rightarrow> (string \<Rightarrow> 'v) \<Rightarrow> PolyhedronNode \<times> event list" where
  "builtin_polyhedron V no_children parameters =
     (let nd = new_PolyhedronNode;
          ev = (if \<not> no_children
                then [LOG Warning ''module %1$s() does not support child modules'' [ArgS ''polyhedron'']]
                else [])
      in
      if type_of V (parameters ''points'') \<noteq> VECTOR then
        (nd, ev @ [LOG Error ''Unable to convert points = %1$s to a vector of coordinates''
                     [ArgS (toEchoStringNoThrow V (parameters ''points''))]])
      else
        (let (points, ev) = polyhedron_points V (toVector V (parameters ''points'')) ([], ev);
             nd = nd\<lparr>ph_points := points\<rparr>;
             (faces, ev) =
               (if type_of V (parameters ''faces'') = UNDEFINED
                   \<and> type_of V (parameters ''triangles'') \<noteq> UNDEFINED
                then (parameters ''triangles'',
                      ev @ [LOG Deprecated ''polyhedron(triangles=[]) will be removed in future releases. Use polyhedron(faces=[]) instead.'' []])
                else (parameters ''faces'', ev))
         in
         if type_of V faces \<noteq> VECTOR then
           (nd, ev @ [LOG Error ''Unable to convert faces = %1$s to a vector of vector of point indices''
                        [ArgS (toEchoStringNoThrow V faces)]])
         else
           (let (fcs, ev) = polyhedron_faces V (length (ph_points nd)) (toVector V faces) 0 ([], ev);
                convexity = to_int V (toDouble V (parameters ''convexity''))
            in (nd\<lparr>ph_faces := fcs, ph_convexity := (if convexity < 1 then 1 else convexity)\<rparr>,
                ev))))"

text \<open>The loop over \<^verbatim>\<open>parameters["points"].toVector()\<close> of \<^verbatim>\<open>builtin_polygon\<close>.\<close>

fun polygon_points ::
  "'v Value_ops \<Rightarrow> 'v list \<Rightarrow> Vector2d list \<times> event list \<Rightarrow> Vector2d list \<times> event list" where
  "polygon_points V [] st = st"
| "polygon_points V (pointValue # rest) (points, ev) =
     (let failed =
            (points @ [(0, 0)],
             ev @ [LOG Error ''Unable to convert points[%1$d] = %2$s to a vec2 of numbers''
                     [ArgI (int (length points)), ArgS (toEchoStringNoThrow V pointValue)]])
      in case getVec2 V pointValue of
           None \<Rightarrow> polygon_points V rest failed
         | Some (p0, p1) \<Rightarrow>
             if \<not> isfinite p0 \<or> \<not> isfinite p1
             then polygon_points V rest failed
             else polygon_points V rest (points @ [(real_of p0, real_of p1)], ev))"

text \<open>The loop over one path, \<^verbatim>\<open>for (const Value& pointIndexValue : pathValue.toVector())\<close>.\<close>

fun path_indices ::
  "'v Value_ops \<Rightarrow> nat \<Rightarrow> nat \<Rightarrow> 'v list \<Rightarrow> nat \<Rightarrow> nat list \<times> event list
     \<Rightarrow> nat list \<times> event list" where
  "path_indices V npoints pathIndex [] pointIndexIndex st = st"
| "path_indices V npoints pathIndex (pointIndexValue # rest) pointIndexIndex (path, ev) =
     (if type_of V pointIndexValue \<noteq> NUMBER then
        path_indices V npoints pathIndex rest (pointIndexIndex + 1)
          (path, ev @ [LOG Error ''Unable to convert paths[%1$d][%2$d] = %3$s to a number''
                         [ArgI (int pathIndex), ArgI (int pointIndexIndex),
                          ArgS (toEchoStringNoThrow V pointIndexValue)]])
      else
        (let pointIndex = to_size_t V (toDouble V pointIndexValue) in
         if pointIndex < npoints then
           path_indices V npoints pathIndex rest (pointIndexIndex + 1) (path @ [pointIndex], ev)
         else
           path_indices V npoints pathIndex rest (pointIndexIndex + 1)
             (path, ev @ [LOG Warning ''Point index %1$d is out of bounds (from paths[%2$d][%3$d])''
                            [ArgI (int pointIndex), ArgI (int pathIndex),
                             ArgI (int pointIndexIndex)]])))"

text \<open>The loop \<^verbatim>\<open>for (const Value& pathValue : parameters["paths"].toVector())\<close>.\<close>

fun polygon_paths ::
  "'v Value_ops \<Rightarrow> nat \<Rightarrow> 'v list \<Rightarrow> nat \<Rightarrow> nat list list \<times> event list
     \<Rightarrow> nat list list \<times> event list" where
  "polygon_paths V npoints [] pathIndex st = st"
| "polygon_paths V npoints (pathValue # rest) pathIndex (paths, ev) =
     (if type_of V pathValue \<noteq> VECTOR then
        polygon_paths V npoints rest (pathIndex + 1)
          (paths, ev @ [LOG Error ''Unable to convert paths[%1$d] = %2$s to a vector of numbers''
                          [ArgI (int pathIndex), ArgS (toEchoStringNoThrow V pathValue)]])
      else
        (let (path, ev') = path_indices V npoints pathIndex (toVector V pathValue) 0 ([], ev)
         in polygon_paths V npoints rest (pathIndex + 1) (paths @ [path], ev')))"

definition builtin_polygon ::
  "'v Value_ops \<Rightarrow> bool \<Rightarrow> (string \<Rightarrow> 'v) \<Rightarrow> PolygonNode \<times> event list" where
  "builtin_polygon V no_children parameters =
     (let nd = new_PolygonNode;
          ev = (if \<not> no_children
                then [LOG Warning ''module %1$s() does not support child modules'' [ArgS ''polygon'']]
                else [])
      in
      if type_of V (parameters ''points'') \<noteq> VECTOR then
        (nd, ev @ [LOG Error ''Unable to convert points = %1$s to a vector of coordinates''
                     [ArgS (toEchoStringNoThrow V (parameters ''points''))]])
      else
        (let (points, ev) = polygon_points V (toVector V (parameters ''points'')) ([], ev);
             nd = nd\<lparr>pg_points := points\<rparr>
         in
         if type_of V (parameters ''paths'') = VECTOR then
           (let (pths, ev) =
                  polygon_paths V (length (pg_points nd)) (toVector V (parameters ''paths'')) 0 ([], ev);
                convexity = to_int V (toDouble V (parameters ''convexity''))
            in (nd\<lparr>pg_paths := pths, pg_convexity := (if convexity < 1 then 1 else convexity)\<rparr>,
                ev))
         else if type_of V (parameters ''paths'') \<noteq> UNDEFINED then
           (nd, ev @ [LOG Error ''Unable to convert paths = %1$s to a vector of vector of point indices''
                        [ArgS (toEchoStringNoThrow V (parameters ''paths''))]])
         else
           (let convexity = to_int V (toDouble V (parameters ''convexity''))
            in (nd\<lparr>pg_convexity := (if convexity < 1 then 1 else convexity)\<rparr>, ev))))"

text \<open>
  An instance of the value interface for evaluating the parsers on concrete parameters:
  numbers, vectors and the undefined value, with the conversions of a finite
  non-negative number to \<^verbatim>\<open>size_t\<close> and of a finite number to \<^verbatim>\<open>int\<close> by truncation.
\<close>

datatype Val = Undef | Num double | Vec "Val list"

fun val_double :: "Val \<Rightarrow> double" where
  "val_double (Num d) = d"
| "val_double _ = Finite 0"

fun val_vector :: "Val \<Rightarrow> Val list" where
  "val_vector (Vec vs) = vs"
| "val_vector _ = []"

fun val_type :: "Val \<Rightarrow> Value_Type" where
  "val_type Undef = UNDEFINED"
| "val_type (Num _) = NUMBER"
| "val_type (Vec _) = VECTOR"

fun val_vec2 :: "Val \<Rightarrow> (double \<times> double) option" where
  "val_vec2 (Vec [Num a, Num b]) = Some (a, b)"
| "val_vec2 _ = None"

fun val_vec3 :: "Val \<Rightarrow> (double \<times> double \<times> double) option" where
  "val_vec3 (Vec [Num a, Num b, Num c]) = Some (a, b, c)"
| "val_vec3 (Vec [Num a, Num b]) = Some (a, b, Finite 0)"
| "val_vec3 _ = None"

definition val_ops :: "Val Value_ops" where
  "val_ops =
     \<lparr>type_of = val_type, toVector = val_vector, toDouble = val_double,
      getVec2 = val_vec2, getVec3 = val_vec3,
      toEchoStringNoThrow = (\<lambda>v. ''?''),
      to_size_t = (\<lambda>d. nat \<lfloor>real_of d\<rfloor>),
      to_int = (\<lambda>d. \<lfloor>real_of d\<rfloor>)\<rparr>"

text \<open>
  The parsers in the words of the specification. An entry of the points parameter is bad
  when its conversion fails or gives a non-finite coordinate; the point stored for an
  entry is the converted point, or the zero placeholder for a bad entry. The valid
  indices of a face or path are the numbers among its entries, converted, that are below
  the number of points.
\<close>

definition bad_point3 :: "'v Value_ops \<Rightarrow> 'v \<Rightarrow> bool" where
  "bad_point3 V pv =
     (case getVec3 V pv of
        None \<Rightarrow> True
      | Some (p0, p1, p2) \<Rightarrow> \<not> isfinite p0 \<or> \<not> isfinite p1 \<or> \<not> isfinite p2)"

definition stored_point3 :: "'v Value_ops \<Rightarrow> 'v \<Rightarrow> Vector3d" where
  "stored_point3 V pv =
     (if bad_point3 V pv then (0, 0, 0)
      else (case the (getVec3 V pv) of (p0, p1, p2) \<Rightarrow> (real_of p0, real_of p1, real_of p2)))"

definition point3_error :: "'v Value_ops \<Rightarrow> nat \<Rightarrow> 'v \<Rightarrow> event" where
  "point3_error V i pv =
     LOG Error ''Unable to convert points[%1$d] = %2$s to a vec3 of numbers''
       [ArgI (int i), ArgS (toEchoStringNoThrow V pv)]"

fun point3_errors :: "'v Value_ops \<Rightarrow> nat \<Rightarrow> 'v list \<Rightarrow> event list" where
  "point3_errors V k [] = []"
| "point3_errors V k (pv # rest) =
     (if bad_point3 V pv then [point3_error V k pv] else []) @ point3_errors V (Suc k) rest"

definition bad_point2 :: "'v Value_ops \<Rightarrow> 'v \<Rightarrow> bool" where
  "bad_point2 V pv =
     (case getVec2 V pv of
        None \<Rightarrow> True
      | Some (p0, p1) \<Rightarrow> \<not> isfinite p0 \<or> \<not> isfinite p1)"

definition stored_point2 :: "'v Value_ops \<Rightarrow> 'v \<Rightarrow> Vector2d" where
  "stored_point2 V pv =
     (if bad_point2 V pv then (0, 0)
      else (case the (getVec2 V pv) of (p0, p1) \<Rightarrow> (real_of p0, real_of p1)))"

definition point2_error :: "'v Value_ops \<Rightarrow> nat \<Rightarrow> 'v \<Rightarrow> event" where
  "point2_error V i pv =
     LOG Error ''Unable to convert points[%1$d] = %2$s to a vec2 of numbers''
       [ArgI (int i), ArgS (toEchoStringNoThrow V pv)]"

fun point2_errors :: "'v Value_ops \<Rightarrow> nat \<Rightarrow> 'v list \<Rightarrow> event list" where
  "point2_errors V k [] = []"
| "point2_errors V k (pv # rest) =
     (if bad_point2 V pv then [point2_error V k pv] else []) @ point2_errors V (Suc k) rest"

definition valid_indices :: "'v Value_ops \<Rightarrow> nat \<Rightarrow> 'v list \<Rightarrow> nat list" where
  "valid_indices V npoints vs =
     filter (\<lambda>k. k < npoints)
       (map (\<lambda>pv. to_size_t V (toDouble V pv)) (filter (\<lambda>pv. type_of V pv = NUMBER) vs))"

definition out_of_bounds :: "'v Value_ops \<Rightarrow> nat \<Rightarrow> 'v \<Rightarrow> bool" where
  "out_of_bounds V npoints pv =
     (type_of V pv = NUMBER \<and> \<not> to_size_t V (toDouble V pv) < npoints)"

definition face_warning :: "'v Value_ops \<Rightarrow> nat \<Rightarrow> nat \<Rightarrow> 'v \<Rightarrow> event" where
  "face_warning V faceIndex i pv =
     LOG Warning ''Point index %1$d is out of bounds (from faces[%2$d][%3$d])''
       [ArgI (int (to_size_t V (toDouble V pv))), ArgI (int faceIndex), ArgI (int i)]"

definition path_warning :: "'v Value_ops \<Rightarrow> nat \<Rightarrow> nat \<Rightarrow> 'v \<Rightarrow> event" where
  "path_warning V pathIndex i pv =
     LOG Warning ''Point index %1$d is out of bounds (from paths[%2$d][%3$d])''
       [ArgI (int (to_size_t V (toDouble V pv))), ArgI (int pathIndex), ArgI (int i)]"

definition face_indices_of :: "'v Value_ops \<Rightarrow> nat \<Rightarrow> 'v list \<Rightarrow> nat list list" where
  "face_indices_of V npoints fvs =
     map (\<lambda>fv. valid_indices V npoints (toVector V fv)) (filter (\<lambda>fv. type_of V fv = VECTOR) fvs)"

definition faces_parameter :: "'v Value_ops \<Rightarrow> (string \<Rightarrow> 'v) \<Rightarrow> 'v" where
  "faces_parameter V parameters =
     (if type_of V (parameters ''faces'') = UNDEFINED
         \<and> type_of V (parameters ''triangles'') \<noteq> UNDEFINED
      then parameters ''triangles'' else parameters ''faces'')"

text \<open>Parameters for evaluating the parsers: four points, two of them bad, and two index lists.\<close>

definition test_parameters :: "string \<Rightarrow> Val" where
  "test_parameters k =
     (if k = ''points'' then
        Vec [Vec [Num (Finite 0), Num (Finite 0)], Vec [Num (Finite 1), Num NaN], Num (Finite 3),
             Vec [Num (Finite 0), Num (Finite 1)]]
      else if k = ''paths'' \<or> k = ''faces'' then
        Vec [Vec [Num (Finite 0), Num (Finite 1), Num (Finite 7)],
             Vec [Num (Finite 0), Num (Finite 1), Num (Finite 3), Undef]]
      else Undef)"

section \<open>CylinderNode::createGeometry\<close>






















section \<open>SphereNode::createGeometry: the latitude rings\<close>






section \<open>Properties of the union queue\<close>














section \<open>Properties of the sequential fold\<close>

lemma fold_step_first:
  "\<not> foundFirst st \<Longrightarrow>
   fold_step alg op c st = Inr (st\<lparr>N := getNefPolyhedronFromGeometry alg (snd c), foundFirst := True\<rparr>)"
  by (simp add: fold_step_def Let_def)

lemma fold_step_skip_child:
  "foundFirst st \<Longrightarrow> op \<noteq> INTERSECTION \<Longrightarrow>
   null_or_empty alg (getNefPolyhedronFromGeometry alg (snd x)) \<Longrightarrow>
   fold_step alg op x st = Inr st"
  by (simp add: fold_step_def Let_def)

lemma fold_step_intersection_null:
  "foundFirst st \<Longrightarrow>
   null_or_empty alg (getNefPolyhedronFromGeometry alg (snd x)) \<Longrightarrow>
   fold_step alg INTERSECTION x st = Inr (st\<lparr>N := None\<rparr>)"
  by (simp add: fold_step_def Let_def)

lemma fold_step_terminal:
  "foundFirst st \<Longrightarrow> null_or_empty alg (N st) \<Longrightarrow> op \<noteq> INTERSECTION \<Longrightarrow>
   fold_step alg op x st = Inr st"
  by (simp add: fold_step_def Let_def)

lemma fold_loop_terminal:
  "foundFirst st \<Longrightarrow> null_or_empty alg (N st) \<Longrightarrow> op \<noteq> INTERSECTION \<Longrightarrow>
   fold_loop alg op cs st = Inr st"
  by (induction cs) (simp_all add: fold_step_terminal)

lemma fold_step_null_acc:
  "foundFirst st \<Longrightarrow> N st = None \<Longrightarrow> fold_step alg op x st = Inr st"
  by (simp add: fold_step_def Let_def null_or_empty_def)

lemma fold_loop_null_acc:
  "foundFirst st \<Longrightarrow> N st = None \<Longrightarrow> fold_loop alg op cs st = Inr st"
  by (induction cs) (simp_all add: fold_step_null_acc)

lemma fold_step_foundFirst:
  "fold_step alg op x st = Inr st' \<Longrightarrow> foundFirst st'"
  by (auto simp: fold_step_def Let_def split: if_splits sum.splits prod.splits)

lemma fold_loop_skip_children:
  "foundFirst st \<Longrightarrow> op \<noteq> INTERSECTION \<Longrightarrow>
   fold_loop alg op (filter (\<lambda>x. \<not> null_or_empty alg (getNefPolyhedronFromGeometry alg (snd x))) cs) st
     = fold_loop alg op cs st"
proof (induction cs arbitrary: st)
  case Nil
  then show ?case by simp
next
  case (Cons x cs)
  show ?case
  proof (cases "null_or_empty alg (getNefPolyhedronFromGeometry alg (snd x))")
    case True
    then show ?thesis using Cons by (simp add: fold_step_skip_child)
  next
    case False
    show ?thesis
    proof (cases "fold_step alg op x st")
      case (Inl a)
      then show ?thesis using False by simp
    next
      case (Inr st')
      then have "foundFirst st'" by (rule fold_step_foundFirst)
      then show ?thesis using False Inr Cons by simp
    qed
  qed
qed

lemma fold_loop_append:
  "fold_loop alg op (xs @ ys) st =
     (case fold_loop alg op xs st of Inl x \<Rightarrow> Inl x | Inr st' \<Rightarrow> fold_loop alg op ys st')"
  by (induction xs arbitrary: st) (auto split: sum.splits)

lemma fold_loop_foundFirst:
  "fold_loop alg op xs st = Inr st' \<Longrightarrow> foundFirst st \<Longrightarrow> foundFirst st'"
  by (induction xs arbitrary: st) (auto split: sum.splits dest: fold_step_foundFirst)

lemma intersection_null_child:
  assumes "fold_loop alg INTERSECTION (c # pre) \<lparr>N = None, foundFirst = False, trace = []\<rparr> = Inr st"
    and "null_or_empty alg (getNefPolyhedronFromGeometry alg (snd x))"
  shows "applyOperator3D alg (c # pre @ x # post) INTERSECTION = (None, trace st)"
proof -
  have ff: "foundFirst st"
    using assms(1) by (auto split: sum.splits dest: fold_step_foundFirst fold_loop_foundFirst)
  have "fold_loop alg INTERSECTION ((c # pre) @ x # post) \<lparr>N = None, foundFirst = False, trace = []\<rparr>
        = fold_loop alg INTERSECTION (x # post) st"
    using assms(1) by (simp only: fold_loop_append) simp
  also have "\<dots> = fold_loop alg INTERSECTION post (st\<lparr>N := None\<rparr>)"
    using ff assms(2) by (simp add: fold_step_intersection_null)
  also have "\<dots> = Inr (st\<lparr>N := None\<rparr>)"
    using ff by (simp add: fold_loop_null_acc)
  finally show ?thesis by (simp add: applyOperator3D_def)
qed

section \<open>The n-ary union\<close>



section \<open>Difference and Minkowski sum\<close>

text \<open>
  Claim C4. For \<^verbatim>\<open>DIFFERENCE\<close> and \<^verbatim>\<open>MINKOWSKI\<close>: the request without children gives null;
  the first iteration sets the accumulator to the first child's solid, null when that is
  null, without reporting anything, and that is the result when there is no other child;
  a null or empty child after the first leaves state and trace as they are, so that
  removing all such children from the request changes neither the result nor the trace;
  once the accumulator is null or empty, scanning any further children ends normally in
  the same state, whatever the algebra would do on them, so that a request whose first
  child is null or empty returns that first child's pointer with an empty trace.
\<close>

theorem applyOperator3D_difference_minkowski:
  assumes op: "op = DIFFERENCE \<or> op = MINKOWSKI"
  shows
  "applyOperator3D alg [] op = (None, [])
   \<and> fold_step alg op c \<lparr>N = None, foundFirst = False, trace = []\<rparr>
       = Inr \<lparr>N = getNefPolyhedronFromGeometry alg (snd c), foundFirst = True, trace = []\<rparr>
   \<and> applyOperator3D alg [c] op = (getNefPolyhedronFromGeometry alg (snd c), [])
   \<and> (foundFirst st \<and> null_or_empty alg (getNefPolyhedronFromGeometry alg (snd x)) \<longrightarrow>
        fold_step alg op x st = Inr st)
   \<and> applyOperator3D alg
         (c # filter (\<lambda>x. \<not> null_or_empty alg (getNefPolyhedronFromGeometry alg (snd x))) cs) op
       = applyOperator3D alg (c # cs) op
   \<and> (foundFirst st' \<and> null_or_empty alg (N st') \<longrightarrow> fold_loop alg op cs' st' = Inr st')
   \<and> (null_or_empty alg (getNefPolyhedronFromGeometry alg (snd c')) \<longrightarrow>
        applyOperator3D alg (c' # cs') op = (getNefPolyhedronFromGeometry alg (snd c'), []))"
proof -
  from op have ni: "op \<noteq> INTERSECTION" by auto
  have first: "fold_step alg op d \<lparr>N = None, foundFirst = False, trace = []\<rparr>
       = Inr \<lparr>N = getNefPolyhedronFromGeometry alg (snd d), foundFirst = True, trace = []\<rparr>" for d
    by (simp add: fold_step_first)
  have a1: "applyOperator3D alg [] op = (None, [])"
    by (simp add: applyOperator3D_def)
  have a3: "applyOperator3D alg [c] op = (getNefPolyhedronFromGeometry alg (snd c), [])"
    by (simp add: applyOperator3D_def first)
  have a4: "fold_step alg op x st = Inr st"
    if "foundFirst st" "null_or_empty alg (getNefPolyhedronFromGeometry alg (snd x))"
    using that ni by (simp add: fold_step_skip_child)
  have a5: "applyOperator3D alg
         (c # filter (\<lambda>x. \<not> null_or_empty alg (getNefPolyhedronFromGeometry alg (snd x))) cs) op
       = applyOperator3D alg (c # cs) op"
    by (simp add: applyOperator3D_def first fold_loop_skip_children [OF _ ni])
  have a6: "fold_loop alg op cs' st' = Inr st'" if "foundFirst st'" "null_or_empty alg (N st')"
    using that ni by (simp add: fold_loop_terminal)
  have a7: "applyOperator3D alg (c' # cs') op = (getNefPolyhedronFromGeometry alg (snd c'), [])"
    if "null_or_empty alg (getNefPolyhedronFromGeometry alg (snd c'))"
    using that ni by (simp add: applyOperator3D_def first fold_loop_terminal)
  show ?thesis using first [of c] a1 a3 a4 a5 a6 a7 by blast
qed

text \<open>Claim C4 on requests with null and empty children, for \<^verbatim>\<open>DIFFERENCE\<close>.\<close>

theorem applyOperator3D_difference_minkowski_witness:
  "(DIFFERENCE = DIFFERENCE \<or> DIFFERENCE = MINKOWSKI)
   \<and> applyOperator3D facet_algebra [(None, Some 5)] DIFFERENCE = (Some 5, [])
   \<and> fold_step facet_algebra DIFFERENCE (None, Some 0) \<lparr>N = Some 5, foundFirst = True, trace = []\<rparr>
       = Inr \<lparr>N = Some 5, foundFirst = True, trace = []\<rparr>
   \<and> applyOperator3D facet_algebra [(None, Some 5), (None, Some 2)] DIFFERENCE
       = applyOperator3D facet_algebra [(None, Some 5), (None, None), (None, Some 2), (None, Some 0)] DIFFERENCE
   \<and> fold_loop facet_algebra DIFFERENCE [(None, Some 13), (None, Some 2)]
         \<lparr>N = Some 0, foundFirst = True, trace = []\<rparr>
       = Inr \<lparr>N = Some 0, foundFirst = True, trace = []\<rparr>
   \<and> applyOperator3D facet_algebra [(None, None), (None, Some 13), (None, Some 2)] DIFFERENCE = (None, [])"
proof -
  let ?st = "\<lparr>N = Some (5::nat), foundFirst = True, trace = []\<rparr>"
  let ?st' = "\<lparr>N = Some (0::nat), foundFirst = True, trace = []\<rparr>"
  note T = applyOperator3D_difference_minkowski [where op = DIFFERENCE and alg = facet_algebra
      and c = "(None, Some 5)" and x = "(None, Some 0)" and st = ?st
      and cs = "[(None, None), (None, Some 2), (None, Some 0)]"
      and st' = ?st' and cs' = "[(None, Some 13), (None, Some 2)]" and c' = "(None, None)", simplified]
  have g: "getNefPolyhedronFromGeometry facet_algebra = (\<lambda>g. g)"
    and e: "isEmpty facet_algebra = (\<lambda>n. n = 0)"
    by (simp_all add: facet_algebra_def)
  show ?thesis
    using T by (simp add: g e null_or_empty_def)
qed

section \<open>Algebra exceptions\<close>

text \<open>
  An exception in the fold is thrown by one of the operators, applied to a non-null
  accumulator; whatever the operator leaves, the pointer returned after the \<^verbatim>\<open>catch\<close> is
  not null. The union returns null after a \<^verbatim>\<open>CGAL::Failure_exception\<close> and lets any other
  exception pass.
\<close>

lemma fold_step_throw:
  "fold_step alg op x st = Inl (e, st') \<Longrightarrow> N st' \<noteq> None \<and> trace st' = trace st"
  by (auto simp: fold_step_def Let_def split: if_splits sum.splits prod.splits)

lemma fold_loop_throw:
  "fold_loop alg op cs st = Inl (e, st') \<Longrightarrow> N st' \<noteq> None"
proof (induction cs arbitrary: st)
  case Nil
  then show ?case by simp
next
  case (Cons x cs)
  then show ?case
    by (auto split: sum.splits dest: fold_step_throw)
qed

lemma applyOperator3D_throw_nonnull:
  assumes "fold_loop alg op cs \<lparr>N = None, foundFirst = False, trace = []\<rparr> = Inl (e, st)"
  shows "fst (applyOperator3D alg cs op) = N st" and "fst (applyOperator3D alg cs op) \<noteq> None"
    and "\<exists>fmt. snd (applyOperator3D alg cs op)
           = trace st @ [LOG Error fmt [ArgS (opstr op), ArgS (case e of Failure_exception w \<Rightarrow> w | std_exception w \<Rightarrow> w)]]"
  using assms fold_loop_throw [OF assms]
  by (auto simp: applyOperator3D_def split: failure.splits)

lemma applyUnion3D_failure:
  assumes "merge_loop alg (fill_queue alg cs []) [progress_tick] = (Inl (Failure_exception w), ev)"
  shows "applyUnion3D alg cs
     = Inr (None, ev @ [LOG Error ''CGAL error in CGALUtils::applyUnion3D: %1$s'' [ArgS w]])"
  using assms by (simp add: applyUnion3D_def)

lemma applyUnion3D_other_exception:
  assumes "merge_loop alg (fill_queue alg cs []) [progress_tick] = (Inl (std_exception w), ev)"
  shows "applyUnion3D alg cs = Inl (std_exception w, ev)"
  using assms by (simp add: applyUnion3D_def)

text \<open>
  Claim C1. When the algebra throws during the union merge or during the sequential
  fold, the combinator reports the error and returns null, never a partial intermediate
  solid. The fold does not do so: on the request \<open>[5, 13]\<close> with \<^verbatim>\<open>DIFFERENCE\<close>, where
  subtracting 13 makes the algebra throw a \<^verbatim>\<open>CGAL::Failure_exception\<close>, \<^verbatim>\<open>applyOperator3D\<close>
  logs the error with the operator name and then returns the accumulator (here the first
  child, non-null) instead of null.
\<close>

theorem applyOperator3D_throw_returns_accumulator:
  "applyOperator3D facet_algebra [(None, Some 5), (None, Some 13)] DIFFERENCE =
     (Some 5,
      [LOG Error ''CGAL error in CGALUtils::applyBinaryOperator %1$s: %2$s''
         [ArgS ''difference'', ArgS ''assertion violation'']])"
  by (simp add: applyOperator3D_def fold_step_def facet_algebra_def null_or_empty_def
      apply_switch_def opstr_def)

text \<open>
  Claim C3. With \<^verbatim>\<open>INTERSECTION\<close>, a null or empty child after the first makes the whole
  result null. On the request \<open>[5, 13, null]\<close>, where intersecting with 13 makes the algebra
  throw, the loop is left before the null child is scanned and the accumulator (non-null)
  is returned.
\<close>

theorem applyOperator3D_intersection_throw_before_null_child:
  "applyOperator3D facet_algebra [(None, Some 5), (None, Some 13), (None, None)] INTERSECTION =
     (Some 5,
      [LOG Error ''CGAL error in CGALUtils::applyBinaryOperator %1$s: %2$s''
         [ArgS ''intersection'', ArgS ''assertion violation'']])"
  by (simp add: applyOperator3D_def fold_step_def facet_algebra_def null_or_empty_def
      apply_switch_def opstr_def)

section \<open>The resolution parameters\<close>

lemma not_less_cases: "\<not> d_less v F_MINIMUM \<Longrightarrow> v \<noteq> NaN \<Longrightarrow> d_le F_MINIMUM v"
  by (cases v) (auto simp: F_MINIMUM_def)

lemma F_MINIMUM_refl: "d_le F_MINIMUM F_MINIMUM" "\<not> d_less F_MINIMUM F_MINIMUM" "F_MINIMUM \<noteq> NaN"
  by (simp_all add: F_MINIMUM_def)

lemma set_fragments_eq:
  "set_fragments fn fs fa =
     ((fn, if d_less fs F_MINIMUM then F_MINIMUM else fs,
           if d_less fa F_MINIMUM then F_MINIMUM else fa),
      (if d_less fs F_MINIMUM then [fs_warning] else [])
      @ (if d_less fa F_MINIMUM then [fa_warning] else []))"
  by (simp add: set_fragments_def fs_warning_def fa_warning_def)

text \<open>
  Claim C9, as the code has it. After \<^verbatim>\<open>set_fragments\<close>, neither \<open>fs\<close> nor \<open>fa\<close> is below
  0.01: each is \<open>\<ge> 0.01\<close> unless its input was NaN, which is kept as it is; a value below
  0.01 is replaced by 0.01, any other value is kept; and the warning for \<open>fs\<close> (for \<open>fa\<close>)
  is logged exactly when the input \<open>fs\<close> (\<open>fa\<close>) was below 0.01, the messages being those
  warnings and nothing else. \<open>fn\<close> is passed on unchanged.
\<close>

theorem set_fragments_clamps:
  "set_fragments fn fs fa = ((fn', fs', fa'), ev) \<Longrightarrow>
     fn' = fn
     \<and> \<not> d_less fs' F_MINIMUM \<and> \<not> d_less fa' F_MINIMUM
     \<and> (fs \<noteq> NaN \<longrightarrow> d_le F_MINIMUM fs') \<and> (fa \<noteq> NaN \<longrightarrow> d_le F_MINIMUM fa')
     \<and> (fs = NaN \<longrightarrow> fs' = NaN) \<and> (fa = NaN \<longrightarrow> fa' = NaN)
     \<and> (d_less fs F_MINIMUM \<longrightarrow> fs' = F_MINIMUM) \<and> (\<not> d_less fs F_MINIMUM \<longrightarrow> fs' = fs)
     \<and> (d_less fa F_MINIMUM \<longrightarrow> fa' = F_MINIMUM) \<and> (\<not> d_less fa F_MINIMUM \<longrightarrow> fa' = fa)
     \<and> (fs_warning \<in> set ev \<longleftrightarrow> d_less fs F_MINIMUM)
     \<and> (fa_warning \<in> set ev \<longleftrightarrow> d_less fa F_MINIMUM)
     \<and> ev = (if d_less fs F_MINIMUM then [fs_warning] else [])
            @ (if d_less fa F_MINIMUM then [fa_warning] else [])"
  unfolding set_fragments_eq
  by (cases "d_less fs F_MINIMUM"; cases "d_less fa F_MINIMUM")
     (auto simp: F_MINIMUM_refl fs_warning_def fa_warning_def dest: not_less_cases)

text \<open>Claim C9 on \<open>fs = 0\<close> (clamped, with a warning) and \<open>fa = \<infinity>\<close> (kept, no warning).\<close>

theorem set_fragments_clamps_witness:
  "set_fragments (Finite 0) (Finite 0) PosInf = ((Finite 0, F_MINIMUM, PosInf), [fs_warning])
   \<and> \<not> d_less F_MINIMUM F_MINIMUM \<and> \<not> d_less PosInf F_MINIMUM
   \<and> d_le F_MINIMUM F_MINIMUM \<and> d_le F_MINIMUM PosInf
   \<and> d_less (Finite 0) F_MINIMUM
   \<and> fs_warning \<in> set [fs_warning] \<and> fa_warning \<notin> set [fs_warning]"
proof -
  have e: "set_fragments (Finite 0) (Finite 0) PosInf = ((Finite 0, F_MINIMUM, PosInf), [fs_warning])"
    by (simp add: set_fragments_eq F_MINIMUM_def)
  from set_fragments_clamps [OF e] e show ?thesis
    by (simp add: F_MINIMUM_def)
qed

text \<open>
  Claim C9 as stated says the effective \<open>fs\<close> and \<open>fa\<close> are always \<open>\<ge> 0.01\<close>. A NaN input
  is not below 0.01, so it is neither clamped nor warned about, and it is not \<open>\<ge> 0.01\<close>.
\<close>

theorem set_fragments_nan_counterexample:
  "set_fragments (Finite 0) NaN (Finite 12) = ((Finite 0, NaN, Finite 12), [])
   \<and> \<not> d_le F_MINIMUM NaN"
  by (simp add: set_fragments_def F_MINIMUM_def)

section \<open>The box\<close>

lemma closed_manifold_box:
  "closed_manifold [[4,5,7,6],[2,3,1,0],[0,1,5,4],[1,3,7,5],[3,2,6,7],[2,0,4,6]]"
  by (simp add: closed_manifold_def edge_count_def has_edge_def face_edges_def)

lemma upt8: "[0..<8] = [0, 1, 2, 3, 4, 5, 6, 7]"
  by (simp add: upt_rec)

lemma box_mesh:
  assumes "x1 \<noteq> x2" "y1 \<noteq> y2" "z1 \<noteq> z2"
  shows "corner_loop x1 x2 y1 y2 z1 z2 [0..<8] ([], new_PolySetBuilder) =
     ([0, 1, 2, 3, 4, 5, 6, 7],
      \<lparr>allVertices = [(x1, y1, z1), (x2, y1, z1), (x1, y2, z1), (x2, y2, z1),
                      (x1, y1, z2), (x2, y1, z2), (x1, y2, z2), (x2, y2, z2)],
       b_indices = []\<rparr>)"
  using assms by (simp add: upt8 vertexIndex_def new_PolySetBuilder_def bit_Suc_0_iff)

lemma corner_count:
  "length (allVertices (snd (corner_loop x1 x2 y1 y2 z1 z2 [0..<8] ([], new_PolySetBuilder))))
     = (if x1 = x2 then 1 else 2) * (if y1 = y2 then 1 else 2) * (if z1 = z2 then 1 else 2)"
  by (simp add: upt8 vertexIndex_def new_PolySetBuilder_def bit_Suc_0_iff)

lemma denorm_min_pos: "0 < denorm_min"
  by (simp add: denorm_min_def)

lemma half_even_uminus: "odd k \<Longrightarrow> half_even (- k) = - half_even k"
  unfolding half_even_def by presburger

lemma half_even_pos: "odd k \<Longrightarrow> 0 < k \<Longrightarrow> k \<noteq> 1 \<Longrightarrow> 0 < half_even k"
  unfolding half_even_def by presburger

lemma d_div2_uminus: "d_div2 (- x) = - d_div2 x"
proof (cases "x / denorm_min = of_int \<lfloor>x / denorm_min\<rfloor>")
  case True
  then obtain k :: int where k: "x / denorm_min = of_int k" by metis
  then show ?thesis
    by (simp add: d_div2_def Let_def half_even_uminus)
next
  case False
  have "- (x / denorm_min) \<noteq> of_int \<lfloor>- (x / denorm_min)\<rfloor>"
  proof
    assume "- (x / denorm_min) = of_int \<lfloor>- (x / denorm_min)\<rfloor>"
    then have "x / denorm_min = of_int (- \<lfloor>- (x / denorm_min)\<rfloor>)" by simp
    then have "x / denorm_min = of_int \<lfloor>x / denorm_min\<rfloor>" by (metis floor_of_int)
    with False show False by simp
  qed
  then show ?thesis using False by (simp add: d_div2_def Let_def)
qed

lemma d_div2_pos:
  assumes "0 < x" "x \<noteq> denorm_min"
  shows "0 < d_div2 x"
proof (cases "x / denorm_min = of_int \<lfloor>x / denorm_min\<rfloor> \<and> odd \<lfloor>x / denorm_min\<rfloor>")
  case True
  define k where "k = \<lfloor>x / denorm_min\<rfloor>"
  have k: "x / denorm_min = of_int k" "odd k" using True by (simp_all add: k_def)
  have x: "x = of_int k * denorm_min" using k(1) denorm_min_pos by (simp add: field_simps)
  have "0 < k" using assms(1) x denorm_min_pos by (simp add: zero_less_mult_iff)
  moreover have "k \<noteq> 1" using assms(2) x by auto
  ultimately have "0 < half_even k" using k(2) by (simp add: half_even_pos)
  then show ?thesis using True denorm_min_pos by (simp add: d_div2_def Let_def k_def)
next
  case False
  then show ?thesis using assms(1) by (auto simp add: d_div2_def Let_def)
qed

lemma d_div2_denorm_min: "d_div2 denorm_min = 0"
  using denorm_min_pos by (simp add: d_div2_def half_even_def)

lemma d_div2_even:
  assumes "x / denorm_min = of_int k" "even k"
  shows "d_div2 x = x / 2"
  using assms by (simp add: d_div2_def)

lemma d_div2_of_nat: "0 < n \<Longrightarrow> d_div2 (of_nat n) = of_nat n / 2"
proof -
  assume "0 < n"
  have "of_nat n / denorm_min = (of_int (int n * 2 ^ 1074) :: real)"
    by (simp add: denorm_min_def)
  moreover have "even (int n * 2 ^ 1074)" by simp
  ultimately show ?thesis by (rule d_div2_even)
qed

lemma d_div2_1: "d_div2 1 = 1 / 2"
  using d_div2_of_nat [of 1] by simp

lemma cube_vertices:
  assumes "0 < x" "0 < y" "0 < z"
  shows "vertices (CubeNode_createGeometry
            \<lparr>cube_x = Finite x, cube_y = Finite y, cube_z = Finite z, cube_center = c\<rparr>)
     = (let (x1, x2, y1, y2, z1, z2) =
               (if c then (d_div2 (- x), d_div2 x, d_div2 (- y), d_div2 y, d_div2 (- z), d_div2 z)
                else (0, x, 0, y, 0, z))
        in allVertices (snd (corner_loop x1 x2 y1 y2 z1 z2 [0..<8] ([], new_PolySetBuilder))))"
  using assms
  by (simp add: CubeNode_createGeometry_def append_poly_def result_def Let_def split: prod.splits)

lemma cube_geometry:
  assumes "0 < x" "0 < y" "0 < z"
    and "c \<longrightarrow> x \<noteq> denorm_min \<and> y \<noteq> denorm_min \<and> z \<noteq> denorm_min"
  shows "CubeNode_createGeometry \<lparr>cube_x = Finite x, cube_y = Finite y, cube_z = Finite z, cube_center = c\<rparr> =
    (let (x1, x2, y1, y2, z1, z2) =
               (if c then (- d_div2 x, d_div2 x, - d_div2 y, d_div2 y, - d_div2 z, d_div2 z)
                else (0, x, 0, y, 0, z)) in
     \<lparr>vertices = [(x1, y1, z1), (x2, y1, z1), (x1, y2, z1), (x2, y2, z1),
                      (x1, y1, z2), (x2, y1, z2), (x1, y2, z2), (x2, y2, z2)],
      indices = [[4,5,7,6],[2,3,1,0],[0,1,5,4],[1,3,7,5],[3,2,6,7],[2,0,4,6]]\<rparr>)"
proof (cases c)
  case True
  have "0 < d_div2 x" "0 < d_div2 y" "0 < d_div2 z"
    using assms True by (simp_all add: d_div2_pos)
  then have "- d_div2 x \<noteq> d_div2 x" "- d_div2 y \<noteq> d_div2 y" "- d_div2 z \<noteq> d_div2 z" by auto
  from box_mesh [OF this] show ?thesis
    using assms True
    by (simp add: CubeNode_createGeometry_def append_poly_def result_def d_div2_uminus)
next
  case False
  have "0 \<noteq> x" "0 \<noteq> y" "0 \<noteq> z" using assms by auto
  from box_mesh [OF this] show ?thesis
    using assms False by (simp add: CubeNode_createGeometry_def append_poly_def result_def)
qed

lemma cube_collapse:
  assumes "0 < x" "0 < y" "0 < z"
    and "x = denorm_min \<or> y = denorm_min \<or> z = denorm_min"
  shows "length (vertices (CubeNode_createGeometry
            \<lparr>cube_x = Finite x, cube_y = Finite y, cube_z = Finite z, cube_center = True\<rparr>)) < 8"
proof -
  have "d_div2 (- x) = d_div2 x \<or> d_div2 (- y) = d_div2 y \<or> d_div2 (- z) = d_div2 z"
    using assms(4) by (auto simp: d_div2_uminus d_div2_denorm_min)
  then show ?thesis
    by (auto simp add: cube_vertices [OF assms(1-3)] corner_count)
qed

lemma cube_denorm_min:
  "CubeNode_createGeometry
     \<lparr>cube_x = Finite denorm_min, cube_y = Finite 1, cube_z = Finite 1, cube_center = True\<rparr>
   = \<lparr>vertices = [(0, - 1 / 2, - 1 / 2), (0, 1 / 2, - 1 / 2), (0, - 1 / 2, 1 / 2), (0, 1 / 2, 1 / 2)],
      indices = [[2, 2, 3, 3], [1, 1, 0, 0], [0, 0, 2, 2], [0, 1, 3, 2], [1, 1, 3, 3], [1, 0, 2, 3]]\<rparr>"
proof -
  have c: "corner_loop 0 0 (- 1 / 2) (1 / 2) (- 1 / 2) (1 / 2) [0..<8] ([], new_PolySetBuilder)
      = ([0, 0, 1, 1, 2, 2, 3, 3],
         \<lparr>allVertices = [(0, - 1 / 2, - 1 / 2), (0, 1 / 2, - 1 / 2), (0, - 1 / 2, 1 / 2), (0, 1 / 2, 1 / 2)],
          b_indices = []\<rparr>)"
    by (simp add: upt8 vertexIndex_def new_PolySetBuilder_def bit_Suc_0_iff)
  show ?thesis
    using c denorm_min_pos
    by (simp add: CubeNode_createGeometry_def d_div2_uminus d_div2_denorm_min d_div2_1
        append_poly_def result_def)
qed

lemma cube_empty:
  assumes "d_le x (Finite 0) \<or> \<not> isfinite x \<or> d_le y (Finite 0) \<or> \<not> isfinite y
           \<or> d_le z (Finite 0) \<or> \<not> isfinite z"
  shows "CubeNode_createGeometry \<lparr>cube_x = x, cube_y = y, cube_z = z, cube_center = c\<rparr> = empty_PolySet"
  using assms by (auto simp add: CubeNode_createGeometry_def)

lemma positive_finite: "isfinite x \<and> d_less (Finite 0) x \<longleftrightarrow> (\<exists>r. x = Finite r \<and> 0 < r)"
  by (cases x) auto

text \<open>
  Claim C5, as the code has it. For all positive finite extents, unless the box is
  centred and one of the extents is the least positive double \<^verbatim>\<open>2^-1074\<close>, the box mesh has
  exactly 8 vertices, all distinct, and 6 faces, each a quadrilateral of 4 distinct
  vertices of the mesh, and every edge of every face is shared by exactly 2 faces; when
  one of the extents is \<open>\<le> 0\<close> or not finite, the mesh is empty (no faces, no vertices).
  In the case left out, half of the extent rounds to zero, two opposite sides of the box
  coincide and the mesh has fewer than 8 vertices.
\<close>

theorem CubeNode_createGeometry_box:
  "(isfinite x \<and> d_less (Finite 0) x \<and> isfinite y \<and> d_less (Finite 0) y
      \<and> isfinite z \<and> d_less (Finite 0) z
      \<and> (c \<longrightarrow> x \<noteq> Finite denorm_min \<and> y \<noteq> Finite denorm_min \<and> z \<noteq> Finite denorm_min) \<longrightarrow>
      length (vertices (CubeNode_createGeometry \<lparr>cube_x = x, cube_y = y, cube_z = z, cube_center = c\<rparr>)) = 8
      \<and> distinct (vertices (CubeNode_createGeometry \<lparr>cube_x = x, cube_y = y, cube_z = z, cube_center = c\<rparr>))
      \<and> length (indices (CubeNode_createGeometry \<lparr>cube_x = x, cube_y = y, cube_z = z, cube_center = c\<rparr>)) = 6
      \<and> list_all (\<lambda>f. length f = 4 \<and> distinct f \<and> list_all (\<lambda>i. i < 8) f)
           (indices (CubeNode_createGeometry \<lparr>cube_x = x, cube_y = y, cube_z = z, cube_center = c\<rparr>))
      \<and> closed_manifold
           (indices (CubeNode_createGeometry \<lparr>cube_x = x, cube_y = y, cube_z = z, cube_center = c\<rparr>)))
   \<and> (d_le x' (Finite 0) \<or> \<not> isfinite x' \<or> d_le y' (Finite 0) \<or> \<not> isfinite y'
        \<or> d_le z' (Finite 0) \<or> \<not> isfinite z' \<longrightarrow>
      CubeNode_createGeometry \<lparr>cube_x = x', cube_y = y', cube_z = z', cube_center = c'\<rparr> = empty_PolySet
      \<and> indices (CubeNode_createGeometry \<lparr>cube_x = x', cube_y = y', cube_z = z', cube_center = c'\<rparr>) = []
      \<and> vertices (CubeNode_createGeometry \<lparr>cube_x = x', cube_y = y', cube_z = z', cube_center = c'\<rparr>) = [])
   \<and> (isfinite x'' \<and> d_less (Finite 0) x'' \<and> isfinite y'' \<and> d_less (Finite 0) y''
        \<and> isfinite z'' \<and> d_less (Finite 0) z''
        \<and> (x'' = Finite denorm_min \<or> y'' = Finite denorm_min \<or> z'' = Finite denorm_min) \<longrightarrow>
      length (vertices (CubeNode_createGeometry
        \<lparr>cube_x = x'', cube_y = y'', cube_z = z'', cube_center = True\<rparr>)) < 8)"
proof (intro conjI impI)
  assume "d_le x' (Finite 0) \<or> \<not> isfinite x' \<or> d_le y' (Finite 0) \<or> \<not> isfinite y'
        \<or> d_le z' (Finite 0) \<or> \<not> isfinite z'"
  then have e: "CubeNode_createGeometry \<lparr>cube_x = x', cube_y = y', cube_z = z', cube_center = c'\<rparr>
      = empty_PolySet"
    by (rule cube_empty)
  show "CubeNode_createGeometry \<lparr>cube_x = x', cube_y = y', cube_z = z', cube_center = c'\<rparr>
      = empty_PolySet" by (rule e)
  show "indices (CubeNode_createGeometry \<lparr>cube_x = x', cube_y = y', cube_z = z', cube_center = c'\<rparr>) = []"
    by (simp add: e empty_PolySet_def)
  show "vertices (CubeNode_createGeometry \<lparr>cube_x = x', cube_y = y', cube_z = z', cube_center = c'\<rparr>) = []"
    by (simp add: e empty_PolySet_def)
next
  assume pos: "isfinite x'' \<and> d_less (Finite 0) x'' \<and> isfinite y'' \<and> d_less (Finite 0) y''
        \<and> isfinite z'' \<and> d_less (Finite 0) z''
        \<and> (x'' = Finite denorm_min \<or> y'' = Finite denorm_min \<or> z'' = Finite denorm_min)"
  then obtain a b d where xyz: "x'' = Finite a" "y'' = Finite b" "z'' = Finite d"
    and p: "0 < a" "0 < b" "0 < d"
    using positive_finite [of x''] positive_finite [of y''] positive_finite [of z''] by auto
  have "a = denorm_min \<or> b = denorm_min \<or> d = denorm_min"
    using pos xyz by simp
  from cube_collapse [OF p this]
  show "length (vertices (CubeNode_createGeometry
        \<lparr>cube_x = x'', cube_y = y'', cube_z = z'', cube_center = True\<rparr>)) < 8"
    by (simp add: xyz)
next
  assume pos: "isfinite x \<and> d_less (Finite 0) x \<and> isfinite y \<and> d_less (Finite 0) y
      \<and> isfinite z \<and> d_less (Finite 0) z
      \<and> (c \<longrightarrow> x \<noteq> Finite denorm_min \<and> y \<noteq> Finite denorm_min \<and> z \<noteq> Finite denorm_min)"
  then obtain a b d where xyz: "x = Finite a" "y = Finite b" "z = Finite d"
    and p: "0 < a" "0 < b" "0 < d"
    using positive_finite [of x] positive_finite [of y] positive_finite [of z] by auto
  have n: "c \<longrightarrow> a \<noteq> denorm_min \<and> b \<noteq> denorm_min \<and> d \<noteq> denorm_min"
    using pos xyz by simp
  have h: "c \<longrightarrow> - d_div2 a \<noteq> d_div2 a \<and> - d_div2 b \<noteq> d_div2 b \<and> - d_div2 d \<noteq> d_div2 d"
    using p n d_div2_pos [of a] d_div2_pos [of b] d_div2_pos [of d] by auto
  note g = cube_geometry [OF p n, folded xyz]
  show "length (vertices (CubeNode_createGeometry \<lparr>cube_x = x, cube_y = y, cube_z = z, cube_center = c\<rparr>)) = 8"
    by (simp add: g)
  show "distinct (vertices (CubeNode_createGeometry \<lparr>cube_x = x, cube_y = y, cube_z = z, cube_center = c\<rparr>))"
    using p h by (auto simp add: g)
  show "length (indices (CubeNode_createGeometry \<lparr>cube_x = x, cube_y = y, cube_z = z, cube_center = c\<rparr>)) = 6"
    by (simp add: g)
  show "list_all (\<lambda>f. length f = 4 \<and> distinct f \<and> list_all (\<lambda>i. i < 8) f)
           (indices (CubeNode_createGeometry \<lparr>cube_x = x, cube_y = y, cube_z = z, cube_center = c\<rparr>))"
    by (simp add: g)
  show "closed_manifold
           (indices (CubeNode_createGeometry \<lparr>cube_x = x, cube_y = y, cube_z = z, cube_center = c\<rparr>))"
    using closed_manifold_box by (simp add: g)
qed

text \<open>
  Claim C5 on the centred box \<open>1 \<times> 2 \<times> 3\<close>, on a box with a NaN extent and on a centred
  box whose first extent is the least positive double.
\<close>

theorem CubeNode_createGeometry_box_witness:
  "isfinite (Finite 1) \<and> d_less (Finite 0) (Finite 1) \<and> d_less (Finite 0) (Finite 2)
   \<and> d_less (Finite 0) (Finite 3)
   \<and> Finite 1 \<noteq> Finite denorm_min \<and> Finite 2 \<noteq> Finite denorm_min
   \<and> Finite 3 \<noteq> Finite denorm_min
   \<and> length (vertices (CubeNode_createGeometry
        \<lparr>cube_x = Finite 1, cube_y = Finite 2, cube_z = Finite 3, cube_center = True\<rparr>)) = 8
   \<and> distinct (vertices (CubeNode_createGeometry
        \<lparr>cube_x = Finite 1, cube_y = Finite 2, cube_z = Finite 3, cube_center = True\<rparr>))
   \<and> length (indices (CubeNode_createGeometry
        \<lparr>cube_x = Finite 1, cube_y = Finite 2, cube_z = Finite 3, cube_center = True\<rparr>)) = 6
   \<and> closed_manifold (indices (CubeNode_createGeometry
        \<lparr>cube_x = Finite 1, cube_y = Finite 2, cube_z = Finite 3, cube_center = True\<rparr>))
   \<and> \<not> isfinite NaN
   \<and> indices (CubeNode_createGeometry
        \<lparr>cube_x = Finite 1, cube_y = NaN, cube_z = Finite (- 2), cube_center = False\<rparr>) = []
   \<and> d_less (Finite 0) (Finite denorm_min)
   \<and> length (vertices (CubeNode_createGeometry
        \<lparr>cube_x = Finite denorm_min, cube_y = Finite 2, cube_z = Finite 3, cube_center = True\<rparr>)) < 8"
proof -
  have n: "(1 :: real) \<noteq> denorm_min" "(2 :: real) \<noteq> denorm_min" "(3 :: real) \<noteq> denorm_min"
    by (simp_all add: denorm_min_def)
  show ?thesis
    using CubeNode_createGeometry_box [where x = "Finite 1" and y = "Finite 2" and z = "Finite 3"
        and c = True and x' = "Finite 1" and y' = NaN and z' = "Finite (- 2)" and c' = False
        and x'' = "Finite denorm_min" and y'' = "Finite 2" and z'' = "Finite 3"]
      n denorm_min_pos
    by (simp add: empty_PolySet_def)
qed

text \<open>
  Claim C5 as stated says the mesh has 8 distinct vertices and is a closed manifold for
  all positive finite extents. On the centred box whose first extent is the least
  positive double, \<^verbatim>\<open>-x / 2\<close> and \<^verbatim>\<open>x / 2\<close> are both zero: the mesh has 4 vertices, its
  faces repeat vertices and some edge is not shared by exactly 2 faces.
\<close>

theorem CubeNode_createGeometry_least_double:
  "isfinite (Finite (1 / 2 ^ 1074)) \<and> d_less (Finite 0) (Finite (1 / 2 ^ 1074))
   \<and> isfinite (Finite 1) \<and> d_less (Finite 0) (Finite 1)
   \<and> length (vertices (CubeNode_createGeometry
        \<lparr>cube_x = Finite (1 / 2 ^ 1074), cube_y = Finite 1, cube_z = Finite 1, cube_center = True\<rparr>)) = 4
   \<and> indices (CubeNode_createGeometry
        \<lparr>cube_x = Finite (1 / 2 ^ 1074), cube_y = Finite 1, cube_z = Finite 1, cube_center = True\<rparr>)
      = [[2, 2, 3, 3], [1, 1, 0, 0], [0, 0, 2, 2], [0, 1, 3, 2], [1, 1, 3, 3], [1, 0, 2, 3]]
   \<and> \<not> closed_manifold (indices (CubeNode_createGeometry
        \<lparr>cube_x = Finite (1 / 2 ^ 1074), cube_y = Finite 1, cube_z = Finite 1, cube_center = True\<rparr>))"
proof -
  have m: "\<not> closed_manifold [[2, 2, 3, 3], [1, 1, 0, 0], [0, 0, 2, 2], [0, 1, 3, 2], [1, 1, 3, 3], [1, 0, 2, 3]]"
    by (simp add: closed_manifold_def edge_count_def has_edge_def face_edges_def)
  show ?thesis
    unfolding cube_denorm_min [unfolded denorm_min_def]
    using m by simp
qed

section \<open>The mesh builder\<close>































section \<open>The rings of the sphere\<close>






section \<open>The polyhedron and polygon parsers\<close>

lemma polyhedron_points_eq:
  "polyhedron_points V vs (pts, ev) =
     (pts @ map (stored_point3 V) vs, ev @ point3_errors V (length pts) vs)"
proof (induction vs arbitrary: pts ev)
  case Nil
  then show ?case by simp
next
  case (Cons pv vs)
  show ?case
  proof (cases "bad_point3 V pv")
    case True
    then show ?thesis
      by (auto simp: Cons bad_point3_def stored_point3_def point3_error_def split: option.splits)
  next
    case False
    then show ?thesis
      by (auto simp: Cons bad_point3_def stored_point3_def split: option.splits)
  qed
qed

lemma polygon_points_eq:
  "polygon_points V vs (pts, ev) =
     (pts @ map (stored_point2 V) vs, ev @ point2_errors V (length pts) vs)"
proof (induction vs arbitrary: pts ev)
  case Nil
  then show ?case by simp
next
  case (Cons pv vs)
  show ?case
  proof (cases "bad_point2 V pv")
    case True
    then show ?thesis
      by (auto simp: Cons bad_point2_def stored_point2_def point2_error_def split: option.splits)
  next
    case False
    then show ?thesis
      by (auto simp: Cons bad_point2_def stored_point2_def split: option.splits)
  qed
qed

lemma point3_errors_mem:
  "i < length vs \<Longrightarrow> bad_point3 V (vs ! i) \<Longrightarrow>
   point3_error V (k + i) (vs ! i) \<in> set (point3_errors V k vs)"
proof (induction vs arbitrary: k i)
  case Nil
  then show ?case by simp
next
  case (Cons pv vs)
  show ?case
  proof (cases i)
    case 0
    then show ?thesis using Cons.prems by simp
  next
    case (Suc j)
    then have "point3_error V (Suc k + j) (vs ! j) \<in> set (point3_errors V (Suc k) vs)"
      using Cons.prems by (intro Cons.IH) simp_all
    then show ?thesis using Suc by simp
  qed
qed

lemma point2_errors_mem:
  "i < length vs \<Longrightarrow> bad_point2 V (vs ! i) \<Longrightarrow>
   point2_error V (k + i) (vs ! i) \<in> set (point2_errors V k vs)"
proof (induction vs arbitrary: k i)
  case Nil
  then show ?case by simp
next
  case (Cons pv vs)
  show ?case
  proof (cases i)
    case 0
    then show ?thesis using Cons.prems by simp
  next
    case (Suc j)
    then have "point2_error V (Suc k + j) (vs ! j) \<in> set (point2_errors V (Suc k) vs)"
      using Cons.prems by (intro Cons.IH) simp_all
    then show ?thesis using Suc by simp
  qed
qed

lemma face_indices_fst:
  "fst (face_indices V n j vs k (face, ev)) = face @ valid_indices V n vs"
  by (induction vs arbitrary: k face ev) (simp_all add: valid_indices_def Let_def)

lemma path_indices_fst:
  "fst (path_indices V n j vs k (path, ev)) = path @ valid_indices V n vs"
  by (induction vs arbitrary: k path ev) (simp_all add: valid_indices_def Let_def)

lemma face_indices_mono: "set ev \<subseteq> set (snd (face_indices V n j vs k (face, ev)))"
proof (induction vs arbitrary: k face ev)
  case Nil
  then show ?case by simp
next
  case (Cons pv vs)
  show ?case
    using Cons [of "ev @ [e]" for e] Cons [of ev]
    by (auto simp: Let_def)
qed

lemma path_indices_mono: "set ev \<subseteq> set (snd (path_indices V n j vs k (path, ev)))"
proof (induction vs arbitrary: k path ev)
  case Nil
  then show ?case by simp
next
  case (Cons pv vs)
  show ?case
    using Cons [of "ev @ [e]" for e] Cons [of ev]
    by (auto simp: Let_def)
qed

lemma face_indices_warning:
  "i < length vs \<Longrightarrow> out_of_bounds V n (vs ! i) \<Longrightarrow>
   face_warning V j (k + i) (vs ! i) \<in> set (snd (face_indices V n j vs k (face, ev)))"
proof (induction vs arbitrary: k i face ev)
  case Nil
  then show ?case by simp
next
  case (Cons pv vs)
  show ?case
  proof (cases i)
    case 0
    then show ?thesis
      using Cons.prems face_indices_mono
        [of "ev @ [face_warning V j k pv]" V n j vs "Suc k" face]
      by (simp add: out_of_bounds_def face_warning_def)
  next
    case (Suc i')
    then have "face_warning V j (Suc k + i') (vs ! i')
        \<in> set (snd (face_indices V n j vs (Suc k) (face', ev')))" for face' ev'
      using Cons.prems by (intro Cons.IH) simp_all
    then show ?thesis using Suc by (simp add: Let_def)
  qed
qed

lemma path_indices_warning:
  "i < length vs \<Longrightarrow> out_of_bounds V n (vs ! i) \<Longrightarrow>
   path_warning V j (k + i) (vs ! i) \<in> set (snd (path_indices V n j vs k (path, ev)))"
proof (induction vs arbitrary: k i path ev)
  case Nil
  then show ?case by simp
next
  case (Cons pv vs)
  show ?case
  proof (cases i)
    case 0
    then show ?thesis
      using Cons.prems path_indices_mono
        [of "ev @ [path_warning V j k pv]" V n j vs "Suc k" path]
      by (simp add: out_of_bounds_def path_warning_def)
  next
    case (Suc i')
    then have "path_warning V j (Suc k + i') (vs ! i')
        \<in> set (snd (path_indices V n j vs (Suc k) (path', ev')))" for path' ev'
      using Cons.prems by (intro Cons.IH) simp_all
    then show ?thesis using Suc by (simp add: Let_def)
  qed
qed

lemma face_indices_pair:
  "face_indices V n j vs k (face, ev) =
     (face @ valid_indices V n vs, snd (face_indices V n j vs k (face, ev)))"
  using face_indices_fst [of V n j vs k face ev] by (simp add: prod_eq_iff)

lemma path_indices_pair:
  "path_indices V n j vs k (path, ev) =
     (path @ valid_indices V n vs, snd (path_indices V n j vs k (path, ev)))"
  using path_indices_fst [of V n j vs k path ev] by (simp add: prod_eq_iff)

lemma polyhedron_faces_fst:
  "fst (polyhedron_faces V n fvs j (fcs, ev)) =
     fcs @ filter (\<lambda>f. 3 \<le> length f) (face_indices_of V n fvs)"
proof (induction fvs arbitrary: j fcs ev)
  case Nil
  then show ?case by (simp add: face_indices_of_def)
next
  case (Cons fv fvs)
  show ?case
  proof (cases "type_of V fv = VECTOR")
    case True
    then show ?thesis
      using Cons [of "Suc j"]
      by (subst polyhedron_faces.simps, subst face_indices_pair)
         (simp add: face_indices_of_def)
  next
    case False
    then show ?thesis using Cons [of "Suc j"] by (simp add: face_indices_of_def)
  qed
qed

lemma polygon_paths_fst:
  "fst (polygon_paths V n pvs j (pths, ev)) = pths @ face_indices_of V n pvs"
proof (induction pvs arbitrary: j pths ev)
  case Nil
  then show ?case by (simp add: face_indices_of_def)
next
  case (Cons pv pvs)
  show ?case
  proof (cases "type_of V pv = VECTOR")
    case True
    then show ?thesis
      using Cons [of "Suc j"]
      by (subst polygon_paths.simps, subst path_indices_pair)
         (simp add: face_indices_of_def)
  next
    case False
    then show ?thesis using Cons [of "Suc j"] by (simp add: face_indices_of_def)
  qed
qed

lemma polyhedron_faces_mono: "set ev \<subseteq> set (snd (polyhedron_faces V n fvs j (fcs, ev)))"
proof (induction fvs arbitrary: j fcs ev)
  case Nil
  then show ?case by simp
next
  case (Cons fv fvs)
  show ?case
  proof (cases "type_of V fv = VECTOR")
    case True
    obtain face ev' where fi: "face_indices V n j (toVector V fv) 0 ([], ev) = (face, ev')"
      by (cases "face_indices V n j (toVector V fv) 0 ([], ev)")
    have "set ev \<subseteq> set ev'"
      using face_indices_mono [of ev V n j "toVector V fv" 0 "[]"] fi by simp
    moreover have "set ev' \<subseteq> set (snd (polyhedron_faces V n fvs (Suc j) (fcs', ev')))" for fcs'
      by (rule Cons)
    ultimately show ?thesis using True fi by auto
  next
    case False
    then show ?thesis
      using Cons [of "ev @ [e]" for e] by auto
  qed
qed

lemma polygon_paths_mono: "set ev \<subseteq> set (snd (polygon_paths V n pvs j (pths, ev)))"
proof (induction pvs arbitrary: j pths ev)
  case Nil
  then show ?case by simp
next
  case (Cons pv pvs)
  show ?case
  proof (cases "type_of V pv = VECTOR")
    case True
    obtain path ev' where fi: "path_indices V n j (toVector V pv) 0 ([], ev) = (path, ev')"
      by (cases "path_indices V n j (toVector V pv) 0 ([], ev)")
    have "set ev \<subseteq> set ev'"
      using path_indices_mono [of ev V n j "toVector V pv" 0 "[]"] fi by simp
    moreover have "set ev' \<subseteq> set (snd (polygon_paths V n pvs (Suc j) (pths', ev')))" for pths'
      by (rule Cons)
    ultimately show ?thesis using True fi by auto
  next
    case False
    then show ?thesis
      using Cons [of "ev @ [e]" for e] by auto
  qed
qed

lemma polyhedron_faces_warning:
  "j < length fvs \<Longrightarrow> type_of V (fvs ! j) = VECTOR \<Longrightarrow> i < length (toVector V (fvs ! j)) \<Longrightarrow>
   out_of_bounds V n (toVector V (fvs ! j) ! i) \<Longrightarrow>
   face_warning V (j0 + j) i (toVector V (fvs ! j) ! i)
     \<in> set (snd (polyhedron_faces V n fvs j0 (fcs, ev)))"
proof (induction fvs arbitrary: j j0 fcs ev)
  case Nil
  then show ?case by simp
next
  case (Cons fv fvs)
  show ?case
  proof (cases j)
    case 0
    obtain face ev' where fi: "face_indices V n j0 (toVector V fv) 0 ([], ev) = (face, ev')"
      by (cases "face_indices V n j0 (toVector V fv) 0 ([], ev)")
    have "face_warning V j0 (0 + i) (toVector V fv ! i) \<in> set ev'"
      using face_indices_warning [of i "toVector V fv" V n j0 0 "[]" ev] Cons.prems 0 fi by simp
    moreover have "set ev' \<subseteq> set (snd (polyhedron_faces V n fvs (Suc j0) (fcs', ev')))" for fcs'
      by (rule polyhedron_faces_mono)
    ultimately show ?thesis using 0 Cons.prems fi by auto
  next
    case (Suc j')
    then have "face_warning V (Suc j0 + j') i (toVector V (fvs ! j') ! i)
        \<in> set (snd (polyhedron_faces V n fvs (Suc j0) (fcs', ev')))" for fcs' ev'
      using Cons.prems by (intro Cons.IH) simp_all
    then show ?thesis using Suc by (auto simp: Let_def split: prod.splits)
  qed
qed

lemma polygon_paths_warning:
  "j < length pvs \<Longrightarrow> type_of V (pvs ! j) = VECTOR \<Longrightarrow> i < length (toVector V (pvs ! j)) \<Longrightarrow>
   out_of_bounds V n (toVector V (pvs ! j) ! i) \<Longrightarrow>
   path_warning V (j0 + j) i (toVector V (pvs ! j) ! i)
     \<in> set (snd (polygon_paths V n pvs j0 (pths, ev)))"
proof (induction pvs arbitrary: j j0 pths ev)
  case Nil
  then show ?case by simp
next
  case (Cons pv pvs)
  show ?case
  proof (cases j)
    case 0
    obtain path ev' where fi: "path_indices V n j0 (toVector V pv) 0 ([], ev) = (path, ev')"
      by (cases "path_indices V n j0 (toVector V pv) 0 ([], ev)")
    have "path_warning V j0 (0 + i) (toVector V pv ! i) \<in> set ev'"
      using path_indices_warning [of i "toVector V pv" V n j0 0 "[]" ev] Cons.prems 0 fi by simp
    moreover have "set ev' \<subseteq> set (snd (polygon_paths V n pvs (Suc j0) (pths', ev')))" for pths'
      by (rule polygon_paths_mono)
    ultimately show ?thesis using 0 Cons.prems fi by auto
  next
    case (Suc j')
    then have "path_warning V (Suc j0 + j') i (toVector V (pvs ! j') ! i)
        \<in> set (snd (polygon_paths V n pvs (Suc j0) (pths', ev')))" for pths' ev'
      using Cons.prems by (intro Cons.IH) simp_all
    then show ?thesis using Suc by (auto simp: Let_def split: prod.splits)
  qed
qed

lemma valid_indices_bound: "k \<in> set (valid_indices V n vs) \<Longrightarrow> k < n"
  by (simp add: valid_indices_def)

lemma builtin_polyhedron_points:
  assumes "type_of V (parameters ''points'') = VECTOR"
  shows "ph_points (fst (builtin_polyhedron V nc parameters))
           = map (stored_point3 V) (toVector V (parameters ''points''))"
  using assms
  by (simp add: builtin_polyhedron_def Let_def polyhedron_points_eq new_PolyhedronNode_def
      split_beta)

lemma builtin_polyhedron_point_errors:
  assumes "type_of V (parameters ''points'') = VECTOR"
  shows "set (point3_errors V 0 (toVector V (parameters ''points'')))
           \<subseteq> set (snd (builtin_polyhedron V nc parameters))"
proof -
  let ?vs = "toVector V (parameters ''points'')"
  have m: "set (ev0 @ point3_errors V 0 ?vs @ ev1)
        \<subseteq> set (snd (polyhedron_faces V n fvs 0 ([], ev0 @ point3_errors V 0 ?vs @ ev1)))"
    for ev0 ev1 n fvs
    by (rule polyhedron_faces_mono)
  show ?thesis
    using assms m [of "[]" "[]"] m [of "[e]" "[]" for e] m [of "[]" "[e]" for e]
      m [of "[e]" "[e']" for e e']
    by (auto simp: builtin_polyhedron_def Let_def polyhedron_points_eq new_PolyhedronNode_def
        split_beta)
qed

lemma builtin_polyhedron_unfold:
  assumes "type_of V (parameters ''points'') = VECTOR"
    and "type_of V (faces_parameter V parameters) = VECTOR"
  shows "\<exists>ev0 cv. builtin_polyhedron V nc parameters =
     (\<lparr>ph_points = map (stored_point3 V) (toVector V (parameters ''points'')),
       ph_faces = fst (polyhedron_faces V (length (toVector V (parameters ''points'')))
                         (toVector V (faces_parameter V parameters)) 0 ([], ev0)),
       ph_convexity = cv\<rparr>,
      snd (polyhedron_faces V (length (toVector V (parameters ''points'')))
             (toVector V (faces_parameter V parameters)) 0 ([], ev0)))"
proof (cases "type_of V (parameters ''faces'') = UNDEFINED
    \<and> type_of V (parameters ''triangles'') \<noteq> UNDEFINED")
  case True
  then have "faces_parameter V parameters = parameters ''triangles''"
    by (simp add: faces_parameter_def)
  then show ?thesis
    using assms True
    by (cases nc)
       (auto simp add: builtin_polyhedron_def Let_def polyhedron_points_eq new_PolyhedronNode_def
          split_beta)
next
  case False
  then have "faces_parameter V parameters = parameters ''faces''"
    by (auto simp add: faces_parameter_def)
  then show ?thesis
    using assms False
    by (cases nc)
       (auto simp add: builtin_polyhedron_def Let_def polyhedron_points_eq new_PolyhedronNode_def
          split_beta)
qed

lemma builtin_polyhedron_faces:
  assumes "type_of V (parameters ''points'') = VECTOR"
    and "type_of V (faces_parameter V parameters) = VECTOR"
  shows "ph_faces (fst (builtin_polyhedron V nc parameters))
           = filter (\<lambda>f. 3 \<le> length f)
               (face_indices_of V (length (toVector V (parameters ''points'')))
                  (toVector V (faces_parameter V parameters)))"
  using builtin_polyhedron_unfold [of V parameters nc, OF assms]
  by (auto simp: polyhedron_faces_fst)

lemma builtin_polyhedron_warnings:
  assumes "type_of V (parameters ''points'') = VECTOR"
    and "type_of V (faces_parameter V parameters) = VECTOR"
    and "j < length (toVector V (faces_parameter V parameters))"
    and "type_of V (toVector V (faces_parameter V parameters) ! j) = VECTOR"
    and "i < length (toVector V (toVector V (faces_parameter V parameters) ! j))"
    and "out_of_bounds V (length (toVector V (parameters ''points'')))
           (toVector V (toVector V (faces_parameter V parameters) ! j) ! i)"
  shows "face_warning V j i (toVector V (toVector V (faces_parameter V parameters) ! j) ! i)
           \<in> set (snd (builtin_polyhedron V nc parameters))"
proof -
  let ?fvs = "toVector V (faces_parameter V parameters)"
  let ?n = "length (toVector V (parameters ''points''))"
  have w: "face_warning V j i (toVector V (?fvs ! j) ! i)
        \<in> set (snd (polyhedron_faces V ?n ?fvs 0 ([], ev)))" for ev
    using polyhedron_faces_warning [OF assms(3-6), of 0 "[]" ev] by simp
  show ?thesis
    using builtin_polyhedron_unfold [of V parameters nc, OF assms(1,2)] w by auto
qed

lemma builtin_polygon_points:
  assumes "type_of V (parameters ''points'') = VECTOR"
  shows "pg_points (fst (builtin_polygon V nc parameters))
           = map (stored_point2 V) (toVector V (parameters ''points''))"
  using assms
  by (simp add: builtin_polygon_def Let_def polygon_points_eq new_PolygonNode_def split_beta)

lemma builtin_polygon_point_errors:
  assumes "type_of V (parameters ''points'') = VECTOR"
  shows "set (point2_errors V 0 (toVector V (parameters ''points'')))
           \<subseteq> set (snd (builtin_polygon V nc parameters))"
proof -
  let ?vs = "toVector V (parameters ''points'')"
  have m: "set (ev0 @ point2_errors V 0 ?vs)
        \<subseteq> set (snd (polygon_paths V n pvs 0 ([], ev0 @ point2_errors V 0 ?vs)))"
    for ev0 n pvs
    by (rule polygon_paths_mono)
  show ?thesis
    using assms m [of "[]"] m [of "[e]" for e]
    by (auto simp: builtin_polygon_def Let_def polygon_points_eq new_PolygonNode_def split_beta)
qed

lemma builtin_polygon_paths:
  assumes "type_of V (parameters ''points'') = VECTOR"
    and "type_of V (parameters ''paths'') = VECTOR"
  shows "pg_paths (fst (builtin_polygon V nc parameters))
           = face_indices_of V (length (toVector V (parameters ''points'')))
               (toVector V (parameters ''paths''))"
  using assms
  by (simp add: builtin_polygon_def Let_def polygon_points_eq new_PolygonNode_def
      split_beta polygon_paths_fst)

lemma builtin_polygon_warnings:
  assumes "type_of V (parameters ''points'') = VECTOR"
    and "type_of V (parameters ''paths'') = VECTOR"
    and "j < length (toVector V (parameters ''paths''))"
    and "type_of V (toVector V (parameters ''paths'') ! j) = VECTOR"
    and "i < length (toVector V (toVector V (parameters ''paths'') ! j))"
    and "out_of_bounds V (length (toVector V (parameters ''points'')))
           (toVector V (toVector V (parameters ''paths'') ! j) ! i)"
  shows "path_warning V j i (toVector V (toVector V (parameters ''paths'') ! j) ! i)
           \<in> set (snd (builtin_polygon V nc parameters))"
proof -
  let ?pvs = "toVector V (parameters ''paths'')"
  let ?n = "length (toVector V (parameters ''points''))"
  have w: "path_warning V j i (toVector V (?pvs ! j) ! i)
        \<in> set (snd (polygon_paths V ?n ?pvs 0 ([], ev)))" for ev
    using polygon_paths_warning [OF assms(3-6), of 0 "[]" ev] by simp
  show ?thesis
    using assms(1,2) w
    by (simp add: builtin_polygon_def Let_def polygon_points_eq new_PolygonNode_def split_beta)
qed

text \<open>
  Claim C10. When the points parameter is a vector, the polyhedron (polygon) node has
  exactly one point per entry, at the entry's position: for an entry whose conversion
  fails or gives a non-finite coordinate, the zero point, with an error logged for that
  position; for any other entry, the converted point.
\<close>

theorem points_keep_their_positions:
  "(type_of V (parameters ''points'') = VECTOR \<longrightarrow>
      length (ph_points (fst (builtin_polyhedron V nc parameters)))
        = length (toVector V (parameters ''points''))
      \<and> (\<forall>i < length (toVector V (parameters ''points'')).
            (bad_point3 V (toVector V (parameters ''points'') ! i) \<longrightarrow>
               ph_points (fst (builtin_polyhedron V nc parameters)) ! i = (0, 0, 0)
               \<and> point3_error V i (toVector V (parameters ''points'') ! i)
                   \<in> set (snd (builtin_polyhedron V nc parameters)))
          \<and> (\<not> bad_point3 V (toVector V (parameters ''points'') ! i) \<longrightarrow>
               (\<exists>p0 p1 p2. getVec3 V (toVector V (parameters ''points'') ! i) = Some (p0, p1, p2)
                  \<and> ph_points (fst (builtin_polyhedron V nc parameters)) ! i
                      = (real_of p0, real_of p1, real_of p2)))))
   \<and> (type_of V (parameters' ''points'') = VECTOR \<longrightarrow>
      length (pg_points (fst (builtin_polygon V nc' parameters')))
        = length (toVector V (parameters' ''points''))
      \<and> (\<forall>i < length (toVector V (parameters' ''points'')).
            (bad_point2 V (toVector V (parameters' ''points'') ! i) \<longrightarrow>
               pg_points (fst (builtin_polygon V nc' parameters')) ! i = (0, 0)
               \<and> point2_error V i (toVector V (parameters' ''points'') ! i)
                   \<in> set (snd (builtin_polygon V nc' parameters')))
          \<and> (\<not> bad_point2 V (toVector V (parameters' ''points'') ! i) \<longrightarrow>
               (\<exists>p0 p1. getVec2 V (toVector V (parameters' ''points'') ! i) = Some (p0, p1)
                  \<and> pg_points (fst (builtin_polygon V nc' parameters')) ! i
                      = (real_of p0, real_of p1)))))"
proof (intro conjI impI allI)
  assume v: "type_of V (parameters ''points'') = VECTOR"
  show "length (ph_points (fst (builtin_polyhedron V nc parameters)))
        = length (toVector V (parameters ''points''))"
    by (simp add: builtin_polyhedron_points [of V parameters, OF v])
  fix i assume i: "i < length (toVector V (parameters ''points''))"
  {
    assume b: "bad_point3 V (toVector V (parameters ''points'') ! i)"
    show "ph_points (fst (builtin_polyhedron V nc parameters)) ! i = (0, 0, 0)"
      using i b by (simp add: builtin_polyhedron_points [of V parameters, OF v] stored_point3_def)
    show "point3_error V i (toVector V (parameters ''points'') ! i)
                   \<in> set (snd (builtin_polyhedron V nc parameters))"
      using point3_errors_mem [OF i b, of 0] builtin_polyhedron_point_errors [of V parameters nc, OF v]
      by auto
  }
  {
    assume b: "\<not> bad_point3 V (toVector V (parameters ''points'') ! i)"
    then obtain p0 p1 p2 where g: "getVec3 V (toVector V (parameters ''points'') ! i) = Some (p0, p1, p2)"
      by (auto simp: bad_point3_def split: option.splits)
    then show "\<exists>p0 p1 p2. getVec3 V (toVector V (parameters ''points'') ! i) = Some (p0, p1, p2)
                  \<and> ph_points (fst (builtin_polyhedron V nc parameters)) ! i
                      = (real_of p0, real_of p1, real_of p2)"
      using i b by (simp add: builtin_polyhedron_points [of V parameters, OF v] stored_point3_def)
  }
next
  assume v: "type_of V (parameters' ''points'') = VECTOR"
  show "length (pg_points (fst (builtin_polygon V nc' parameters')))
        = length (toVector V (parameters' ''points''))"
    by (simp add: builtin_polygon_points [of V parameters', OF v])
  fix i assume i: "i < length (toVector V (parameters' ''points''))"
  {
    assume b: "bad_point2 V (toVector V (parameters' ''points'') ! i)"
    show "pg_points (fst (builtin_polygon V nc' parameters')) ! i = (0, 0)"
      using i b by (simp add: builtin_polygon_points [of V parameters', OF v] stored_point2_def)
    show "point2_error V i (toVector V (parameters' ''points'') ! i)
                   \<in> set (snd (builtin_polygon V nc' parameters'))"
      using point2_errors_mem [OF i b, of 0] builtin_polygon_point_errors [of V parameters' nc', OF v]
      by auto
  }
  {
    assume b: "\<not> bad_point2 V (toVector V (parameters' ''points'') ! i)"
    then obtain p0 p1 where g: "getVec2 V (toVector V (parameters' ''points'') ! i) = Some (p0, p1)"
      by (auto simp: bad_point2_def split: option.splits)
    then show "\<exists>p0 p1. getVec2 V (toVector V (parameters' ''points'') ! i) = Some (p0, p1)
                  \<and> pg_points (fst (builtin_polygon V nc' parameters')) ! i
                      = (real_of p0, real_of p1)"
      using i b by (simp add: builtin_polygon_points [of V parameters', OF v] stored_point2_def)
  }
qed

lemma tp_points: "test_parameters ''points'' =
        Vec [Vec [Num (Finite 0), Num (Finite 0)], Vec [Num (Finite 1), Num NaN], Num (Finite 3),
             Vec [Num (Finite 0), Num (Finite 1)]]"
  and tp_paths: "test_parameters ''paths'' =
        Vec [Vec [Num (Finite 0), Num (Finite 1), Num (Finite 7)],
             Vec [Num (Finite 0), Num (Finite 1), Num (Finite 3), Undef]]"
  and tp_faces: "test_parameters ''faces'' =
        Vec [Vec [Num (Finite 0), Num (Finite 1), Num (Finite 7)],
             Vec [Num (Finite 0), Num (Finite 1), Num (Finite 3), Undef]]"
  and tp_triangles: "test_parameters ''triangles'' = Undef"
  by (simp_all add: test_parameters_def)

lemma val_ops_simps:
  "type_of val_ops = val_type" "toVector val_ops = val_vector" "toDouble val_ops = val_double"
  "getVec2 val_ops = val_vec2" "getVec3 val_ops = val_vec3"
  "to_size_t val_ops = (\<lambda>d. nat \<lfloor>real_of d\<rfloor>)"
  by (simp_all add: val_ops_def)

text \<open>
  Claim C10 on four point entries: entry 1 has a NaN coordinate, entry 2 is a number and
  not a vector; both become zero points, and the entries after them keep their positions.
\<close>

theorem points_keep_their_positions_witness:
  "type_of val_ops (test_parameters ''points'') = VECTOR
   \<and> length (toVector val_ops (test_parameters ''points'')) = 4
   \<and> bad_point3 val_ops (Vec [Num (Finite 1), Num NaN])
   \<and> length (ph_points (fst (builtin_polyhedron val_ops True test_parameters))) = 4
   \<and> ph_points (fst (builtin_polyhedron val_ops True test_parameters)) ! 1 = (0, 0, 0)
   \<and> point3_error val_ops 1 (Vec [Num (Finite 1), Num NaN])
        \<in> set (snd (builtin_polyhedron val_ops True test_parameters))
   \<and> \<not> bad_point3 val_ops (Vec [Num (Finite 0), Num (Finite 1)])
   \<and> ph_points (fst (builtin_polyhedron val_ops True test_parameters)) ! 3 = (0, 1, 0)
   \<and> bad_point2 val_ops (Num (Finite 3))
   \<and> length (pg_points (fst (builtin_polygon val_ops True test_parameters))) = 4
   \<and> pg_points (fst (builtin_polygon val_ops True test_parameters)) ! 2 = (0, 0)
   \<and> point2_error val_ops 2 (Num (Finite 3))
        \<in> set (snd (builtin_polygon val_ops True test_parameters))
   \<and> pg_points (fst (builtin_polygon val_ops True test_parameters)) ! 3 = (0, 1)"
proof -
  note T = points_keep_their_positions [where V = val_ops and parameters = test_parameters
      and parameters' = test_parameters and nc = True and nc' = True]
  have v: "type_of val_ops (test_parameters ''points'') = VECTOR"
    by (simp add: val_ops_simps tp_points)
  have len: "length (toVector val_ops (test_parameters ''points'')) = 4"
    by (simp add: val_ops_simps tp_points)
  have nth: "toVector val_ops (test_parameters ''points'') ! 1 = Vec [Num (Finite 1), Num NaN]"
    "toVector val_ops (test_parameters ''points'') ! 2 = Num (Finite 3)"
    "toVector val_ops (test_parameters ''points'') ! 3 = Vec [Num (Finite 0), Num (Finite 1)]"
    by (simp_all add: val_ops_simps tp_points)
  have b1: "bad_point3 val_ops (Vec [Num (Finite 1), Num NaN])"
    and b2: "\<not> bad_point3 val_ops (Vec [Num (Finite 0), Num (Finite 1)])"
    and b3: "bad_point2 val_ops (Num (Finite 3))"
    and b4: "\<not> bad_point2 val_ops (Vec [Num (Finite 0), Num (Finite 1)])"
    by (simp_all add: bad_point3_def bad_point2_def val_ops_simps)
  have i1: "1 < length (toVector val_ops (test_parameters ''points''))"
    and i2: "2 < length (toVector val_ops (test_parameters ''points''))"
    and i3: "3 < length (toVector val_ops (test_parameters ''points''))"
    by (simp_all add: len)
  note T3 = T [THEN conjunct1, rule_format, OF v]
  note T2 = T [THEN conjunct2, rule_format, OF v]
  have a1: "length (ph_points (fst (builtin_polyhedron val_ops True test_parameters))) = 4"
    using T3 [THEN conjunct1] len by simp
  have a2: "ph_points (fst (builtin_polyhedron val_ops True test_parameters)) ! 1 = (0, 0, 0)
     \<and> point3_error val_ops 1 (Vec [Num (Finite 1), Num NaN])
        \<in> set (snd (builtin_polyhedron val_ops True test_parameters))"
    using T3 [THEN conjunct2, rule_format, OF i1, THEN conjunct1] b1 nth by simp
  have a3: "ph_points (fst (builtin_polyhedron val_ops True test_parameters)) ! 3 = (0, 1, 0)"
    using T3 [THEN conjunct2, rule_format, OF i3, THEN conjunct2] b2 nth
    by (auto simp: val_ops_simps)
  have a4: "length (pg_points (fst (builtin_polygon val_ops True test_parameters))) = 4"
    using T2 [THEN conjunct1] len by simp
  have a5: "pg_points (fst (builtin_polygon val_ops True test_parameters)) ! 2 = (0, 0)
     \<and> point2_error val_ops 2 (Num (Finite 3))
        \<in> set (snd (builtin_polygon val_ops True test_parameters))"
    using T2 [THEN conjunct2, rule_format, OF i2, THEN conjunct1] b3 nth by simp
  have a6: "pg_points (fst (builtin_polygon val_ops True test_parameters)) ! 3 = (0, 1)"
    using T2 [THEN conjunct2, rule_format, OF i3, THEN conjunct2] b4 nth
    by (auto simp: val_ops_simps)
  show ?thesis using v len b1 b2 b3 a1 a2 a3 a4 a5 a6 by blast
qed


text \<open>
  Claim C8, as the code has it. In both parsers the indices kept for a face or path are
  its valid indices (the entries that are numbers and, converted, below the number of
  points), so every index kept is below the number of stored points, and for every number
  entry that is not below the number of points a warning is logged with the index, the
  face or path and the position. The polyhedron keeps exactly the faces with at least 3
  valid indices; the polygon keeps every path, with the valid indices it has.
\<close>

theorem out_of_range_indices_dropped:
  "(type_of V (parameters ''points'') = VECTOR \<and> type_of V (faces_parameter V parameters) = VECTOR \<longrightarrow>
      ph_faces (fst (builtin_polyhedron V nc parameters))
        = filter (\<lambda>f. 3 \<le> length f)
            (face_indices_of V (length (toVector V (parameters ''points'')))
               (toVector V (faces_parameter V parameters)))
      \<and> (\<forall>f \<in> set (ph_faces (fst (builtin_polyhedron V nc parameters))).
            3 \<le> length f
            \<and> (\<forall>k \<in> set f. k < length (ph_points (fst (builtin_polyhedron V nc parameters)))))
      \<and> (\<forall>j < length (toVector V (faces_parameter V parameters)).
            type_of V (toVector V (faces_parameter V parameters) ! j) = VECTOR \<longrightarrow>
            (\<forall>i < length (toVector V (toVector V (faces_parameter V parameters) ! j)).
               out_of_bounds V (length (toVector V (parameters ''points'')))
                 (toVector V (toVector V (faces_parameter V parameters) ! j) ! i) \<longrightarrow>
               face_warning V j i (toVector V (toVector V (faces_parameter V parameters) ! j) ! i)
                 \<in> set (snd (builtin_polyhedron V nc parameters)))))
   \<and> (type_of V (parameters' ''points'') = VECTOR \<and> type_of V (parameters' ''paths'') = VECTOR \<longrightarrow>
      pg_paths (fst (builtin_polygon V nc' parameters'))
        = face_indices_of V (length (toVector V (parameters' ''points'')))
            (toVector V (parameters' ''paths''))
      \<and> (\<forall>p \<in> set (pg_paths (fst (builtin_polygon V nc' parameters'))).
            \<forall>k \<in> set p. k < length (pg_points (fst (builtin_polygon V nc' parameters'))))
      \<and> (\<forall>j < length (toVector V (parameters' ''paths'')).
            type_of V (toVector V (parameters' ''paths'') ! j) = VECTOR \<longrightarrow>
            (\<forall>i < length (toVector V (toVector V (parameters' ''paths'') ! j)).
               out_of_bounds V (length (toVector V (parameters' ''points'')))
                 (toVector V (toVector V (parameters' ''paths'') ! j) ! i) \<longrightarrow>
               path_warning V j i (toVector V (toVector V (parameters' ''paths'') ! j) ! i)
                 \<in> set (snd (builtin_polygon V nc' parameters')))))"
proof (intro conjI impI)
  assume a: "type_of V (parameters ''points'') = VECTOR
      \<and> type_of V (faces_parameter V parameters) = VECTOR"
  then have v: "type_of V (parameters ''points'') = VECTOR"
    and f: "type_of V (faces_parameter V parameters) = VECTOR" by auto
  note fs = builtin_polyhedron_faces [of V parameters nc, OF v f]
  note ps = builtin_polyhedron_points [of V parameters nc, OF v]
  show "ph_faces (fst (builtin_polyhedron V nc parameters))
        = filter (\<lambda>f. 3 \<le> length f)
            (face_indices_of V (length (toVector V (parameters ''points'')))
               (toVector V (faces_parameter V parameters)))"
    by (rule fs)
  show "\<forall>f \<in> set (ph_faces (fst (builtin_polyhedron V nc parameters))).
            3 \<le> length f
            \<and> (\<forall>k \<in> set f. k < length (ph_points (fst (builtin_polyhedron V nc parameters))))"
    unfolding fs ps by (auto simp: face_indices_of_def dest: valid_indices_bound)
  show "\<forall>j < length (toVector V (faces_parameter V parameters)).
            type_of V (toVector V (faces_parameter V parameters) ! j) = VECTOR \<longrightarrow>
            (\<forall>i < length (toVector V (toVector V (faces_parameter V parameters) ! j)).
               out_of_bounds V (length (toVector V (parameters ''points'')))
                 (toVector V (toVector V (faces_parameter V parameters) ! j) ! i) \<longrightarrow>
               face_warning V j i (toVector V (toVector V (faces_parameter V parameters) ! j) ! i)
                 \<in> set (snd (builtin_polyhedron V nc parameters)))"
    using builtin_polyhedron_warnings [of V parameters _ _ nc, OF v f] by blast
next
  assume a: "type_of V (parameters' ''points'') = VECTOR
      \<and> type_of V (parameters' ''paths'') = VECTOR"
  then have v: "type_of V (parameters' ''points'') = VECTOR"
    and f: "type_of V (parameters' ''paths'') = VECTOR" by auto
  note fs = builtin_polygon_paths [of V parameters' nc', OF v f]
  note ps = builtin_polygon_points [of V parameters' nc', OF v]
  show "pg_paths (fst (builtin_polygon V nc' parameters'))
        = face_indices_of V (length (toVector V (parameters' ''points'')))
            (toVector V (parameters' ''paths''))"
    by (rule fs)
  show "\<forall>p \<in> set (pg_paths (fst (builtin_polygon V nc' parameters'))).
            \<forall>k \<in> set p. k < length (pg_points (fst (builtin_polygon V nc' parameters')))"
    unfolding fs ps by (auto simp: face_indices_of_def dest: valid_indices_bound)
  show "\<forall>j < length (toVector V (parameters' ''paths'')).
            type_of V (toVector V (parameters' ''paths'') ! j) = VECTOR \<longrightarrow>
            (\<forall>i < length (toVector V (toVector V (parameters' ''paths'') ! j)).
               out_of_bounds V (length (toVector V (parameters' ''points'')))
                 (toVector V (toVector V (parameters' ''paths'') ! j) ! i) \<longrightarrow>
               path_warning V j i (toVector V (toVector V (parameters' ''paths'') ! j) ! i)
                 \<in> set (snd (builtin_polygon V nc' parameters')))"
    using builtin_polygon_warnings [of V parameters' _ _ nc', OF v f] by blast
qed

lemma test_face_indices:
  "face_indices_of val_ops 4 (toVector val_ops (test_parameters ''paths'')) = [[0, 1], [0, 1, 3]]"
  "face_indices_of val_ops 4 (toVector val_ops (test_parameters ''faces'')) = [[0, 1], [0, 1, 3]]"
  by (simp_all add: face_indices_of_def valid_indices_def val_ops_simps tp_paths tp_faces)

text \<open>
  Claim C8 on two index lists, the first with the out-of-range index 7: the polyhedron
  drops the first face, the polygon keeps the first path with its two valid indices.
\<close>

theorem out_of_range_indices_dropped_witness:
  "type_of val_ops (test_parameters ''points'') = VECTOR
   \<and> type_of val_ops (faces_parameter val_ops test_parameters) = VECTOR
   \<and> type_of val_ops (test_parameters ''paths'') = VECTOR
   \<and> out_of_bounds val_ops 4 (Num (Finite 7))
   \<and> ph_faces (fst (builtin_polyhedron val_ops True test_parameters)) = [[0, 1, 3]]
   \<and> face_warning val_ops 0 2 (Num (Finite 7))
        \<in> set (snd (builtin_polyhedron val_ops True test_parameters))
   \<and> pg_paths (fst (builtin_polygon val_ops True test_parameters)) = [[0, 1], [0, 1, 3]]
   \<and> path_warning val_ops 0 2 (Num (Finite 7))
        \<in> set (snd (builtin_polygon val_ops True test_parameters))"
proof -
  note T = out_of_range_indices_dropped [where V = val_ops and parameters = test_parameters
      and parameters' = test_parameters and nc = True and nc' = True]
  have v: "type_of val_ops (test_parameters ''points'') = VECTOR"
    by (simp add: val_ops_simps tp_points)
  have fp: "faces_parameter val_ops test_parameters = test_parameters ''faces''"
    by (simp add: faces_parameter_def val_ops_simps tp_faces)
  have f: "type_of val_ops (faces_parameter val_ops test_parameters) = VECTOR"
    by (simp add: fp val_ops_simps tp_faces)
  have p: "type_of val_ops (test_parameters ''paths'') = VECTOR"
    by (simp add: val_ops_simps tp_paths)
  have len: "length (toVector val_ops (test_parameters ''points'')) = 4"
    by (simp add: val_ops_simps tp_points)
  have oob: "out_of_bounds val_ops 4 (Num (Finite 7))"
    by (simp add: out_of_bounds_def val_ops_simps)
  have j: "0 < length (toVector val_ops (test_parameters ''faces''))"
    "0 < length (toVector val_ops (test_parameters ''paths''))"
    by (simp_all add: val_ops_simps tp_faces tp_paths)
  have e0: "toVector val_ops (test_parameters ''faces'') ! 0
       = Vec [Num (Finite 0), Num (Finite 1), Num (Finite 7)]"
    "toVector val_ops (test_parameters ''paths'') ! 0
       = Vec [Num (Finite 0), Num (Finite 1), Num (Finite 7)]"
    by (simp_all add: val_ops_simps tp_faces tp_paths)
  have e02: "type_of val_ops (Vec [Num (Finite 0), Num (Finite 1), Num (Finite 7)]) = VECTOR"
    "2 < length (toVector val_ops (Vec [Num (Finite 0), Num (Finite 1), Num (Finite 7)]))"
    "toVector val_ops (Vec [Num (Finite 0), Num (Finite 1), Num (Finite 7)]) ! 2 = Num (Finite 7)"
    by (simp_all add: val_ops_simps)
  note T3 = T [THEN conjunct1, rule_format, OF conjI [OF v f], unfolded fp len]
  note T2 = T [THEN conjunct2, rule_format, OF conjI [OF v p], unfolded len]
  have a1: "ph_faces (fst (builtin_polyhedron val_ops True test_parameters)) = [[0, 1, 3]]"
    using T3 [THEN conjunct1] by (simp add: test_face_indices)
  have a2: "face_warning val_ops 0 2 (Num (Finite 7))
        \<in> set (snd (builtin_polyhedron val_ops True test_parameters))"
    using T3 [THEN conjunct2, THEN conjunct2, rule_format, OF j(1), unfolded e0, OF e02(1) e02(2),
        unfolded e02(3), OF oob] .
  have a3: "pg_paths (fst (builtin_polygon val_ops True test_parameters)) = [[0, 1], [0, 1, 3]]"
    using T2 [THEN conjunct1] by (simp add: test_face_indices)
  have a4: "path_warning val_ops 0 2 (Num (Finite 7))
        \<in> set (snd (builtin_polygon val_ops True test_parameters))"
    using T2 [THEN conjunct2, THEN conjunct2, rule_format, OF j(2), unfolded e0, OF e02(1) e02(2),
        unfolded e02(3), OF oob] .
  show ?thesis using v f p oob a1 a2 a3 a4 by blast
qed

text \<open>
  Claim C8 as stated says a path that retains fewer than 3 valid indices is dropped from
  the node. The polygon parser keeps the path \<open>[0, 1, 7]\<close> of a polygon of 4 points as
  \<open>[0, 1]\<close>.
\<close>

theorem polygon_keeps_short_path:
  "pg_paths (fst (builtin_polygon val_ops True test_parameters)) = [[0, 1], [0, 1, 3]]
   \<and> length [0 :: nat, 1] < 3"
proof -
  have v: "type_of val_ops (test_parameters ''points'') = VECTOR"
    by (simp add: val_ops_simps tp_points)
  have p: "type_of val_ops (test_parameters ''paths'') = VECTOR"
    by (simp add: val_ops_simps tp_paths)
  have len: "length (toVector val_ops (test_parameters ''points'')) = 4"
    by (simp add: val_ops_simps tp_points)
  show ?thesis
    using builtin_polygon_paths [of val_ops test_parameters True, OF v p]
    by (simp add: len test_face_indices)
qed

end
